theory Spec2Isabelle
  imports Complex_Main
begin

section \<open>Data model\<close>

text \<open>
  The controller class \<open>MPC\<close> of \<open>mpc_cbf.py\<close> builds CasADi expressions over the
  symbols of a do-mpc model: the state \<open>x\<close> (shape 3x1), the input \<open>u\<close> (shape 2x1) and,
  in trajectory tracking, the time-varying parameters \<open>x_set_point\<close> and \<open>y_set_point\<close>.
  An expression is embedded as the function it denotes: it maps an assignment of values
  to the symbols (\<open>symvals\<close>) to its value. Numbers are real numbers. Vectors and matrices
  are lists (of rows), indexed as in the source.
\<close>

type_synonym vec = "real list"
type_synonym mat = "real list list"

text \<open>An obstacle is the tuple \<open>(x_obs, y_obs, r_obs)\<close>.\<close>

type_synonym obstacle = "real \<times> real \<times> real"

record tvp_entry =
  x_set_point :: real
  y_set_point :: real

record symvals =
  val_x :: vec
  val_u :: vec
  val_tvp :: tvp_entry

type_synonym SX = "symvals \<Rightarrow> real"
type_synonym SXvec = "symvals \<Rightarrow> vec"
type_synonym SXmat = "symvals \<Rightarrow> mat"

text \<open>
  The Python exceptions that the statements of the class raise by themselves: reading an
  attribute that was never assigned, indexing an empty list, reading a local variable that
  was never bound. A result \<open>Inr\<close> says that none of these was raised. What CasADi and
  do-mpc raise inside their own code (operands of mismatched dimensions, a \<open>setup\<close> that
  refuses the problem) is outside the embedding; the properties below that concern an
  assembled model or controller assume that the assembly returned.
\<close>

datatype py_error = AttributeError | IndexError | UnboundLocalError

text \<open>
  The module \<open>config\<close> is imported by both source files; its attributes are the
  parameters of a run.
\<close>

record config =
  config_sim_time :: nat
  config_Ts :: real
  config_T_horizon :: nat
  config_x0 :: vec
  config_v_limit :: real
  config_omega_limit :: real
  config_R :: mat
  config_Q :: mat
  config_obstacles_on :: bool
  config_obs :: "obstacle list"
  config_r :: real
  config_control_type :: string
  config_goal :: vec
  config_gamma :: real
  config_controller :: string
  config_trajectory :: string
  config_A :: real
  config_w :: real

text \<open>
  The attributes that \<open>MPC.__init__\<close> copies from \<open>config\<close>. \<open>self.obs\<close> and \<open>self.r\<close>
  exist only when \<open>obstacles_on\<close> holds, \<open>self.goal\<close> only in set-point control: reading
  an attribute that was never assigned raises \<open>AttributeError\<close>.
\<close>

record mpc_self =
  self_sim_time :: nat
  self_Ts :: real
  self_T_horizon :: nat
  self_x0 :: vec
  self_v_limit :: real
  self_omega_limit :: real
  self_R :: mat
  self_Q :: mat
  self_obstacles_on :: bool
  self_obs :: "obstacle list option"
  self_r :: "real option"
  self_control_type :: string
  self_goal :: "vec option"
  self_gamma :: real

definition init_attributes :: "config \<Rightarrow> mpc_self" where
  "init_attributes cfg =
     \<lparr> self_sim_time = config_sim_time cfg,
       self_Ts = config_Ts cfg,
       self_T_horizon = config_T_horizon cfg,
       self_x0 = config_x0 cfg,
       self_v_limit = config_v_limit cfg,
       self_omega_limit = config_omega_limit cfg,
       self_R = config_R cfg,
       self_Q = config_Q cfg,
       self_obstacles_on = config_obstacles_on cfg,
       self_obs = (if config_obstacles_on cfg then Some (config_obs cfg) else None),
       self_r = (if config_obstacles_on cfg then Some (config_r cfg) else None),
       self_control_type = config_control_type cfg,
       self_goal = (if config_control_type cfg = ''setpoint'' then Some (config_goal cfg) else None),
       self_gamma = config_gamma cfg \<rparr>"

section \<open>Vector and matrix operations of the expressions\<close>

definition zeros :: "nat \<Rightarrow> nat \<Rightarrow> mat" where
  "zeros m n = replicate m (replicate n 0)"

text \<open>\<open>B[i, j] = v\<close>\<close>

definition mat_set :: "mat \<Rightarrow> nat \<Rightarrow> nat \<Rightarrow> real \<Rightarrow> mat" where
  "mat_set B i j v = B[i := (B ! i)[j := v]]"

definition dot :: "vec \<Rightarrow> vec \<Rightarrow> real" where
  "dot v w = sum_list (map2 (*) v w)"

text \<open>\<open>B @ u\<close> for a matrix and a column vector\<close>

definition mtimes :: "mat \<Rightarrow> vec \<Rightarrow> vec" where
  "mtimes B u = map (\<lambda>row. dot row u) B"

text \<open>\<open>transpose(X) @ Q\<close> for a column vector \<open>X\<close>: a row vector\<close>

definition row_mtimes :: "vec \<Rightarrow> mat \<Rightarrow> vec" where
  "row_mtimes X Qm = map (\<lambda>col. dot X col) (transpose Qm)"

text \<open>\<open>v * c\<close> for a scalar \<open>c\<close>\<close>

definition scale :: "vec \<Rightarrow> real \<Rightarrow> vec" where
  "scale v c = map (\<lambda>a. a * c) v"

definition vadd :: "vec \<Rightarrow> vec \<Rightarrow> vec" where
  "vadd v w = map2 (+) v w"

definition vsub :: "vec \<Rightarrow> vec \<Rightarrow> vec" where
  "vsub v w = map2 (-) v w"

text \<open>The two-argument arc tangent \<open>arctan2(y, x)\<close>.\<close>

definition arctan2 :: "real \<Rightarrow> real \<Rightarrow> real" where
  "arctan2 y x =
     (if 0 < x then arctan (y / x)
      else if x < 0 then (if 0 \<le> y then arctan (y / x) + pi else arctan (y / x) - pi)
      else if 0 < y then pi / 2
      else if y < 0 then - (pi / 2)
      else 0)"

section \<open>The kinematic model (\<open>mpc_cbf.py\<close>)\<close>

text \<open>\<open>get_sys_matrix_B\<close>: a 3x2 matrix of zeros, five entries of which are assigned.\<close>

definition get_sys_matrix_B :: "SXvec \<Rightarrow> SXmat" where
  "get_sys_matrix_B x = (\<lambda>s.
     let a = 1 / 10 ^ 9;
         B0 = zeros 3 2;
         B1 = mat_set B0 0 0 (cos (x s ! 2));
         B2 = mat_set B1 0 1 (- a * sin (x s ! 2));
         B3 = mat_set B2 1 0 (sin (x s ! 2));
         B4 = mat_set B3 1 1 (a * cos (x s ! 2));
         B5 = mat_set B4 2 1 1
     in B5)"

text \<open>
  \<open>get_cost_expression\<close> returns the names of the time-varying parameters it declares
  in the model and the cost \<open>transpose(X) @ Q @ X\<close>.
\<close>

definition get_cost_expression :: "mpc_self \<Rightarrow> SXvec \<Rightarrow> py_error + (string list \<times> SX)" where
  "get_cost_expression self model_x =
     (if self_control_type self = ''setpoint'' then
        (case self_goal self of
           None \<Rightarrow> Inl AttributeError
         | Some goal \<Rightarrow>
             let X = (\<lambda>s. vsub (model_x s) goal)
             in Inr ([], \<lambda>s. dot (row_mtimes (X s) (self_Q self)) (X s)))
      else
        let tvp_x = (\<lambda>s. x_set_point (val_tvp s));
            tvp_y = (\<lambda>s. y_set_point (val_tvp s));
            theta_des = (\<lambda>s. arctan2 (model_x s ! 1 - tvp_y s) (model_x s ! 0 - tvp_x s));
            X = (\<lambda>s. [model_x s ! 0 - tvp_x s, model_x s ! 1 - tvp_y s, model_x s ! 2 - theta_des s])
        in Inr ([''x_set_point'', ''y_set_point''], \<lambda>s. dot (row_mtimes (X s) (self_Q self)) (X s)))"

text \<open>What \<open>define_model\<close> puts into the do-mpc model.\<close>

record model =
  model_tvp_names :: "string list"
  model_rhs :: SXvec
  model_aux_cost :: SX

definition define_model :: "mpc_self \<Rightarrow> py_error + model" where
  "define_model self =
     (let x_sym = val_x;
          u_sym = val_u;
          B = get_sys_matrix_B x_sym;
          x_next = (\<lambda>s. vadd (x_sym s) (scale (mtimes (B s) (u_sym s)) (self_Ts self)))
      in case get_cost_expression self x_sym of
           Inl e \<Rightarrow> Inl e
         | Inr (tvps, cost_expr) \<Rightarrow>
             Inr \<lparr> model_tvp_names = tvps, model_rhs = x_next, model_aux_cost = cost_expr \<rparr>)"

section \<open>Safety constraints (\<open>mpc_cbf.py\<close>)\<close>

text \<open>\<open>h\<close>: the control barrier function of one obstacle, as an expression in \<open>x\<close>.\<close>

definition h :: "mpc_self \<Rightarrow> SXvec \<Rightarrow> obstacle \<Rightarrow> py_error + SX" where
  "h self x obstacle =
     (case obstacle of (x_obs, y_obs, r_obs) \<Rightarrow>
        (case self_r self of
           None \<Rightarrow> Inl AttributeError
         | Some r \<Rightarrow> Inr (\<lambda>s. (x s ! 0 - x_obs) ^ 2 + (x s ! 1 - y_obs) ^ 2 - (r + r_obs) ^ 2)))"

text \<open>The loop of \<open>get_cbf_constraints\<close>: one expression is appended per obstacle.\<close>

fun cbf_loop :: "mpc_self \<Rightarrow> SXvec \<Rightarrow> SX list \<Rightarrow> obstacle list \<Rightarrow> py_error + SX list" where
  "cbf_loop self x_k1 cbf_constraints [] = Inr cbf_constraints"
| "cbf_loop self x_k1 cbf_constraints (ob # rest) =
     (case h self x_k1 ob of
        Inl e \<Rightarrow> Inl e
      | Inr h_k1 \<Rightarrow>
          (case h self val_x ob of
             Inl e \<Rightarrow> Inl e
           | Inr h_k \<Rightarrow>
               cbf_loop self x_k1
                 (cbf_constraints @ [\<lambda>s. - h_k1 s + (1 - self_gamma self) * h_k s]) rest))"

text \<open>
  \<open>get_cbf_constraints\<close>. Its first two statements compute the state vector \<open>x_k1\<close>
  (\<open>cbf_x_k1\<close>); the loop follows.
\<close>

definition cbf_x_k1 :: "mpc_self \<Rightarrow> SXvec" where
  "cbf_x_k1 self =
     (let B = get_sys_matrix_B val_x
      in (\<lambda>s. vadd (val_x s) (scale (mtimes (B s) (val_u s)) (self_Ts self))))"

definition get_cbf_constraints :: "mpc_self \<Rightarrow> py_error + SX list" where
  "get_cbf_constraints self =
     (let x_k1 = cbf_x_k1 self
      in case self_obs self of
           None \<Rightarrow> Inl AttributeError
         | Some obstacles \<Rightarrow> cbf_loop self x_k1 [] obstacles)"

text \<open>Python's \<open>str\<close> on a natural number.\<close>

fun str :: "nat \<Rightarrow> string" where
  "str n = (if n < 10 then [''0123456789'' ! n]
            else str (n div 10) @ [''0123456789'' ! (n mod 10)])"

declare str.simps [simp del]

text \<open>
  The controller object of do-mpc, as far as \<open>define_mpc\<close> writes it. \<open>set_nl_cons\<close>
  appends an entry (name, expression, upper bound) to the list of nonlinear constraints;
  the solver requires \<open>expression \<le> upper bound\<close> at every step of the horizon.
  The structure of time-varying parameters has one entry per step of the horizon; the
  function registered by \<open>set_tvp_fun\<close> is called with the current time and fills it.
\<close>

record nl_cons_entry =
  con_name :: string
  con_expr :: SX
  con_ub :: real

type_synonym tvp_struct = "tvp_entry list"

record controller =
  mpc_n_robust :: nat
  mpc_n_horizon :: nat
  mpc_t_step :: real
  mpc_state_discretization :: string
  mpc_store_full_solution :: bool
  mpc_mterm :: SX
  mpc_lterm :: SX
  mpc_rterm_u :: mat
  mpc_bounds_lower_u :: vec
  mpc_bounds_upper_u :: vec
  mpc_nl_cons :: "nl_cons_entry list"
  mpc_tvp_fun :: "(tvp_struct \<Rightarrow> real \<Rightarrow> py_error + tvp_struct) option"

definition set_nl_cons :: "controller \<Rightarrow> string \<Rightarrow> SX \<Rightarrow> real \<Rightarrow> controller" where
  "set_nl_cons mpc name e u =
     mpc\<lparr>mpc_nl_cons := mpc_nl_cons mpc @ [\<lparr>con_name = name, con_expr = e, con_ub = u\<rparr>]\<rparr>"

text \<open>The loop of \<open>add_obstacle_constraints\<close> (MPC-DC), with its counter \<open>i\<close>.\<close>

fun obstacle_loop :: "mpc_self \<Rightarrow> controller \<Rightarrow> nat \<Rightarrow> obstacle list \<Rightarrow> py_error + controller" where
  "obstacle_loop self mpc i [] = Inr mpc"
| "obstacle_loop self mpc i ((x_obs, y_obs, r_obs) # rest) =
     (case self_r self of
        None \<Rightarrow> Inl AttributeError
      | Some r \<Rightarrow>
          let obs_avoid = (\<lambda>s. - ((val_x s ! 0 - x_obs) ^ 2) - (val_x s ! 1 - y_obs) ^ 2 + (r + r_obs) ^ 2)
          in obstacle_loop self (set_nl_cons mpc (''obstacle_constraint'' @ str i) obs_avoid 0)
               (i + 1) rest)"

definition add_obstacle_constraints :: "mpc_self \<Rightarrow> controller \<Rightarrow> py_error + controller" where
  "add_obstacle_constraints self mpc =
     (case self_obs self of
        None \<Rightarrow> Inl AttributeError
      | Some obstacles \<Rightarrow> obstacle_loop self mpc 0 obstacles)"

text \<open>The loop of \<open>add_cbf_constraints\<close> (MPC-CBF), with its counter \<open>i\<close>.\<close>

fun add_cbf_loop :: "controller \<Rightarrow> nat \<Rightarrow> SX list \<Rightarrow> controller" where
  "add_cbf_loop mpc i [] = mpc"
| "add_cbf_loop mpc i (cbc # rest) =
     add_cbf_loop (set_nl_cons mpc (''cbf_constraint'' @ str i) cbc 0) (i + 1) rest"

definition add_cbf_constraints :: "mpc_self \<Rightarrow> controller \<Rightarrow> py_error + controller" where
  "add_cbf_constraints self mpc =
     (case get_cbf_constraints self of
        Inl e \<Rightarrow> Inl e
      | Inr cbf_constraints \<Rightarrow> Inr (add_cbf_loop mpc 0 cbf_constraints))"

section \<open>Reference trajectory (\<open>mpc_cbf.py\<close>)\<close>

text \<open>
  \<open>tvp_fun_mpc\<close>, the closure defined in \<open>set_tvp_for_mpc\<close>. It writes into the structure
  \<open>tvp_struct_mpc\<close> that it captured and returns it; the structure is passed in and out.
  The slice \<open>['_tvp', :, name]\<close> addresses the entry of every step of the horizon.
\<close>

definition tvp_fun_mpc :: "config \<Rightarrow> tvp_struct \<Rightarrow> real \<Rightarrow> py_error + tvp_struct" where
  "tvp_fun_mpc cfg tvp_struct_mpc t_now =
     (let (x_traj, y_traj) =
            (if config_trajectory cfg = ''circular'' then
               (config_A cfg * cos (config_w cfg * t_now),
                config_A cfg * sin (config_w cfg * t_now))
             else
               (config_A cfg * cos (config_w cfg * t_now) / ((sin (config_w cfg * t_now)) ^ 2 + 1),
                config_A cfg * sin (config_w cfg * t_now) * cos (config_w cfg * t_now)
                  / ((sin (config_w cfg * t_now)) ^ 2 + 1)));
          struct1 = map (\<lambda>e. e\<lparr>x_set_point := x_traj\<rparr>) tvp_struct_mpc;
          struct2 = map (\<lambda>e. e\<lparr>y_set_point := y_traj\<rparr>) struct1
      in Inr struct2)"

text \<open>
  \<open>set_tvp_for_mpc\<close> registers the function. do-mpc calls it once when it is registered;
  \<open>tvp_fun_mpc\<close> of this file raises at no argument, and every call overwrites all
  entries of the structure, so that call leaves no trace.
\<close>

definition set_tvp_for_mpc :: "config \<Rightarrow> controller \<Rightarrow> controller" where
  "set_tvp_for_mpc cfg mpc = mpc\<lparr>mpc_tvp_fun := Some (tvp_fun_mpc cfg)\<rparr>"

section \<open>Assembly of the controller and of the simulator (\<open>mpc_cbf.py\<close>)\<close>

text \<open>
  \<open>define_mpc\<close>. The argument \<open>mpc0\<close> is the object that \<open>do_mpc.controller.MPC(self.model)\<close>
  returns; \<open>define_mpc\<close> configures it.
\<close>

definition define_mpc :: "config \<Rightarrow> mpc_self \<Rightarrow> model \<Rightarrow> controller \<Rightarrow> py_error + controller" where
  "define_mpc cfg self self_model mpc0 =
     (let mpc1 = mpc0\<lparr>mpc_n_robust := 0,
                      mpc_n_horizon := self_T_horizon self,
                      mpc_t_step := self_Ts self,
                      mpc_state_discretization := ''discrete'',
                      mpc_store_full_solution := True\<rparr>;
          mterm = model_aux_cost self_model;
          lterm = model_aux_cost self_model;
          mpc2 = mpc1\<lparr>mpc_mterm := mterm, mpc_lterm := lterm\<rparr>;
          mpc3 = mpc2\<lparr>mpc_rterm_u := self_R self\<rparr>;
          max_u = [self_v_limit self, self_omega_limit self];
          mpc4 = mpc3\<lparr>mpc_bounds_lower_u := map uminus max_u\<rparr>;
          mpc5 = mpc4\<lparr>mpc_bounds_upper_u := max_u\<rparr>;
          safe = (if self_obstacles_on self then
                    (if config_controller cfg = ''MPC-DC'' then add_obstacle_constraints self mpc5
                     else add_cbf_constraints self mpc5)
                  else Inr mpc5)
      in case safe of
           Inl e \<Rightarrow> Inl e
         | Inr mpc6 \<Rightarrow>
             Inr (if self_control_type self = ''traj_tracking'' then set_tvp_for_mpc cfg mpc6
                  else mpc6))"

text \<open>
  \<open>define_simulator\<close>. \<open>sim0\<close> is the object that \<open>do_mpc.simulator.Simulator(self.model)\<close>
  returns and \<open>tvp_template\<close> the structure that its \<open>get_tvp_template\<close> returns.
\<close>

record simulator =
  sim_t_step :: real
  sim_tvp_fun :: "(real \<Rightarrow> tvp_entry) option"

definition define_simulator :: "mpc_self \<Rightarrow> simulator \<Rightarrow> tvp_entry \<Rightarrow> simulator" where
  "define_simulator self sim0 tvp_template =
     (let sim1 = sim0\<lparr>sim_t_step := self_Ts self\<rparr>
      in if self_control_type self = ''traj_tracking'' then
           sim1\<lparr>sim_tvp_fun := Some (\<lambda>t_now. tvp_template)\<rparr>
         else sim1)"

section \<open>The closed loop (\<open>mpc_cbf.py\<close>)\<close>

text \<open>
  \<open>run_simulation\<close>. The three \<open>make_step\<close> methods belong to do-mpc: they are
  parameters. Each reads and updates the objects of the run (their joint state is \<open>'w\<close>)
  and returns a vector, or raises (\<open>Inl\<close>). The loop variable \<open>k\<close> of
  \<open>for k in range(self.sim_time)\<close> is not used by the body; \<open>run_loop\<close> counts the
  iterations that remain.
\<close>

type_synonym ('w, 'e) make_step = "'w \<Rightarrow> vec \<Rightarrow> 'e + vec \<times> 'w"

fun run_loop ::
  "('w, 'e) make_step \<Rightarrow> ('w, 'e) make_step \<Rightarrow> ('w, 'e) make_step \<Rightarrow>
     nat \<Rightarrow> vec \<Rightarrow> 'w \<Rightarrow> 'e + vec \<times> 'w" where
  "run_loop mpc_make_step simulator_make_step estimator_make_step 0 x0 w = Inr (x0, w)"
| "run_loop mpc_make_step simulator_make_step estimator_make_step (Suc n) x0 w =
     (case mpc_make_step w x0 of
        Inl e \<Rightarrow> Inl e
      | Inr (u0, w1) \<Rightarrow>
          (case simulator_make_step w1 u0 of
             Inl e \<Rightarrow> Inl e
           | Inr (y_next, w2) \<Rightarrow>
               (case estimator_make_step w2 y_next of
                  Inl e \<Rightarrow> Inl e
                | Inr (x0', w3) \<Rightarrow>
                    run_loop mpc_make_step simulator_make_step estimator_make_step n x0' w3)))"

definition run_simulation ::
  "('w, 'e) make_step \<Rightarrow> ('w, 'e) make_step \<Rightarrow> ('w, 'e) make_step \<Rightarrow>
     mpc_self \<Rightarrow> 'w \<Rightarrow> 'e + vec \<times> 'w" where
  "run_simulation mpc_make_step simulator_make_step estimator_make_step self w =
     run_loop mpc_make_step simulator_make_step estimator_make_step
       (self_sim_time self) (self_x0 self) w"

text \<open>
  The cycle as the specification words it: the controller is invoked on the current
  estimated state, the input it returns is passed to the simulator, the output of the
  simulator is passed to the estimator, and the output of the estimator is the state of
  the next cycle. \<open>cycle_fails\<close>: one of the three stages of the cycle raises \<open>e\<close>, the
  stages before it having succeeded.
\<close>

definition cycle ::
  "('w, 'e) make_step \<Rightarrow> ('w, 'e) make_step \<Rightarrow> ('w, 'e) make_step \<Rightarrow>
     vec \<times> 'w \<Rightarrow> vec \<times> 'w \<Rightarrow> bool" where
  "cycle solve simulate estimate p q =
     (\<exists>u w1 y w2. solve (snd p) (fst p) = Inr (u, w1)
                \<and> simulate w1 u = Inr (y, w2)
                \<and> estimate w2 y = Inr q)"

definition cycle_fails ::
  "('w, 'e) make_step \<Rightarrow> ('w, 'e) make_step \<Rightarrow> ('w, 'e) make_step \<Rightarrow>
     vec \<times> 'w \<Rightarrow> 'e \<Rightarrow> bool" where
  "cycle_fails solve simulate estimate p e =
     (solve (snd p) (fst p) = Inl e
      \<or> (\<exists>u w1. solve (snd p) (fst p) = Inr (u, w1)
            \<and> (simulate w1 u = Inl e
               \<or> (\<exists>y w2. simulate w1 u = Inr (y, w2) \<and> estimate w2 y = Inl e))))"

section \<open>The legacy variant (\<open>mpc-cbf.py\<close>)\<close>

text \<open>
  \<open>mpc-cbf.py\<close> holds an earlier version of the same class. Its \<open>__init__\<close>,
  \<open>get_cost_expression\<close>, \<open>define_simulator\<close> and \<open>run_simulation\<close> have the same code
  as in \<open>mpc_cbf.py\<close>. Its \<open>define_model\<close> and \<open>define_mpc\<close> build the matrix \<open>B\<close>
  in place, its \<open>h\<close> reads the first obstacle, and its \<open>tvp_fun_mpc\<close> assigns the
  trajectory in the circular case only.
\<close>

definition legacy_define_model :: "mpc_self \<Rightarrow> py_error + model" where
  "legacy_define_model self =
     (let x_sym = val_x;
          u_sym = val_u;
          a = 1 / 10 ^ 9;
          B = (\<lambda>s.
                 let B0 = zeros 3 2;
                     B1 = mat_set B0 0 0 (cos (x_sym s ! 2));
                     B2 = mat_set B1 0 1 (- a * sin (x_sym s ! 2));
                     B3 = mat_set B2 1 0 (sin (x_sym s ! 2));
                     B4 = mat_set B3 1 1 (a * cos (x_sym s ! 2));
                     B5 = mat_set B4 2 1 1
                 in B5);
          x_next = (\<lambda>s. vadd (x_sym s) (scale (mtimes (B s) (u_sym s)) (self_Ts self)))
      in case get_cost_expression self x_sym of
           Inl e \<Rightarrow> Inl e
         | Inr (tvps, cost_expr) \<Rightarrow>
             Inr \<lparr> model_tvp_names = tvps, model_rhs = x_next, model_aux_cost = cost_expr \<rparr>)"

definition legacy_h :: "mpc_self \<Rightarrow> SXvec \<Rightarrow> py_error + SX" where
  "legacy_h self x =
     (case self_obs self of
        None \<Rightarrow> Inl AttributeError
      | Some obstacles \<Rightarrow>
          (case obstacles of
             [] \<Rightarrow> Inl IndexError
           | (x_obs, y_obs, r_obs) # _ \<Rightarrow>
               (case self_r self of
                  None \<Rightarrow> Inl AttributeError
                | Some r \<Rightarrow>
                    Inr (\<lambda>s. (x s ! 0 - x_obs) ^ 2 + (x s ! 1 - y_obs) ^ 2 - (r + r_obs) ^ 2))))"

definition legacy_tvp_fun_mpc :: "config \<Rightarrow> tvp_struct \<Rightarrow> real \<Rightarrow> py_error + tvp_struct" where
  "legacy_tvp_fun_mpc cfg tvp_struct_mpc t_now =
     (if config_trajectory cfg = ''circular'' then
        let x_traj = config_A cfg * cos (config_w cfg * t_now);
            y_traj = config_A cfg * sin (config_w cfg * t_now);
            struct1 = map (\<lambda>e. e\<lparr>x_set_point := x_traj\<rparr>) tvp_struct_mpc;
            struct2 = map (\<lambda>e. e\<lparr>y_set_point := y_traj\<rparr>) struct1
        in Inr struct2
      else Inl UnboundLocalError)"

text \<open>
  \<open>set_tvp_for_mpc\<close> of the legacy file. \<open>set_tvp_fun\<close> of do-mpc calls the function once,
  at time 0, when it is registered; an exception of that call leaves \<open>set_tvp_for_mpc\<close>.
  \<open>tvp_struct_mpc\<close> is the structure that \<open>mpc.get_tvp_template()\<close> returns.
\<close>

definition legacy_set_tvp_for_mpc :: "config \<Rightarrow> controller \<Rightarrow> tvp_struct \<Rightarrow> py_error + controller" where
  "legacy_set_tvp_for_mpc cfg mpc tvp_struct_mpc =
     (case legacy_tvp_fun_mpc cfg tvp_struct_mpc 0 of
        Inl e \<Rightarrow> Inl e
      | Inr _ \<Rightarrow> Inr (mpc\<lparr>mpc_tvp_fun := Some (legacy_tvp_fun_mpc cfg)\<rparr>))"

text \<open>The state vector \<open>x_k1\<close> that the legacy \<open>define_mpc\<close> computes for its constraint.\<close>

definition legacy_x_k1 :: "mpc_self \<Rightarrow> SXvec" where
  "legacy_x_k1 self =
     (let a = 1 / 10 ^ 9;
          B = (\<lambda>s.
                 let B0 = zeros 3 2;
                     B1 = mat_set B0 0 0 (cos (val_x s ! 2));
                     B2 = mat_set B1 0 1 (- a * sin (val_x s ! 2));
                     B3 = mat_set B2 1 0 (sin (val_x s ! 2));
                     B4 = mat_set B3 1 1 (a * cos (val_x s ! 2));
                     B5 = mat_set B4 2 1 1
                 in B5)
      in (\<lambda>s. vadd (val_x s) (scale (mtimes (B s) (val_u s)) (self_Ts self))))"

text \<open>
  \<open>define_mpc\<close> of the legacy file; \<open>mpc0\<close> is the object that
  \<open>do_mpc.controller.MPC(self.model)\<close> returns and \<open>tvp_template\<close> the structure that its
  \<open>get_tvp_template\<close> returns.
\<close>

definition legacy_define_mpc ::
  "config \<Rightarrow> mpc_self \<Rightarrow> model \<Rightarrow> controller \<Rightarrow> tvp_struct \<Rightarrow> py_error + controller" where
  "legacy_define_mpc cfg self self_model mpc0 tvp_template =
     (let mpc1 = mpc0\<lparr>mpc_n_robust := 0,
                      mpc_n_horizon := self_T_horizon self,
                      mpc_t_step := self_Ts self,
                      mpc_state_discretization := ''discrete'',
                      mpc_store_full_solution := True\<rparr>;
          mterm = model_aux_cost self_model;
          lterm = model_aux_cost self_model;
          mpc2 = mpc1\<lparr>mpc_mterm := mterm, mpc_lterm := lterm\<rparr>;
          mpc3 = mpc2\<lparr>mpc_rterm_u := self_R self\<rparr>;
          max_u = [self_v_limit self, self_omega_limit self];
          mpc4 = mpc3\<lparr>mpc_bounds_lower_u := map uminus max_u\<rparr>;
          mpc5 = mpc4\<lparr>mpc_bounds_upper_u := max_u\<rparr>;
          x_k1 = legacy_x_k1 self
      in case legacy_h self x_k1 of
           Inl e \<Rightarrow> Inl e
         | Inr h_k1 \<Rightarrow>
             (case legacy_h self val_x of
                Inl e \<Rightarrow> Inl e
              | Inr h_k \<Rightarrow>
                  let cbc = (\<lambda>s. - h_k1 s + (1 - self_gamma self) * h_k s);
                      mpc6 = set_nl_cons mpc5 ''cbf_constraint'' cbc 0
                  in if self_control_type self = ''traj_tracking''
                     then legacy_set_tvp_for_mpc cfg mpc6 tvp_template
                     else Inr mpc6))"

section \<open>Example inputs\<close>

text \<open>
  A run with one obstacle of radius 1 at \<open>(3, 0)\<close>, a point robot at the origin heading
  along the x axis, sampling time 1 and \<open>\<gamma> = 0.75\<close>; the other examples vary it.
\<close>

definition example_config :: config where
  "example_config =
     \<lparr> config_sim_time = 2,
       config_Ts = 1,
       config_T_horizon = 2,
       config_x0 = [0, 0, 0],
       config_v_limit = 1,
       config_omega_limit = 1,
       config_R = [[1, 0], [0, 1]],
       config_Q = [[1, 0, 0], [0, 1, 0], [0, 0, 1]],
       config_obstacles_on = True,
       config_obs = [(3, 0, 1)],
       config_r = 0,
       config_control_type = ''setpoint'',
       config_goal = [10, 0, 0],
       config_gamma = 3 / 4,
       config_controller = ''MPC-CBF'',
       config_trajectory = ''circular'',
       config_A = 1,
       config_w = 1 \<rparr>"

text \<open>The robot at the origin, driven with \<open>v = 1\<close>, \<open>\<omega> = 0\<close>.\<close>

definition example_step :: symvals where
  "example_step = \<lparr> val_x = [0, 0, 0], val_u = [1, 0],
                    val_tvp = \<lparr>x_set_point = 0, y_set_point = 0\<rparr> \<rparr>"

text \<open>A controller object without constraints, as it is before \<open>define_mpc\<close> configures it.\<close>

definition example_controller :: controller where
  "example_controller =
     \<lparr> mpc_n_robust = 0, mpc_n_horizon = 0, mpc_t_step = 0,
       mpc_state_discretization = [], mpc_store_full_solution = False,
       mpc_mterm = (\<lambda>s. 0), mpc_lterm = (\<lambda>s. 0), mpc_rterm_u = [],
       mpc_bounds_lower_u = [], mpc_bounds_upper_u = [],
       mpc_nl_cons = [], mpc_tvp_fun = None \<rparr>"

text \<open>Variants of the example run.\<close>

definition gamma_zero_config :: config where
  "gamma_zero_config = example_config\<lparr>config_gamma := 0\<rparr>"

definition gamma_one_config :: config where
  "gamma_one_config = example_config\<lparr>config_gamma := 1\<rparr>"

definition trajectory_config :: config where
  "trajectory_config = example_config\<lparr>config_control_type := ''traj_tracking''\<rparr>"

definition unknown_trajectory_config :: config where
  "unknown_trajectory_config =
     example_config\<lparr>config_control_type := ''traj_tracking'', config_trajectory := ''square''\<rparr>"

definition no_obstacles_config :: config where
  "no_obstacles_config = example_config\<lparr>config_obstacles_on := False\<rparr>"

definition two_obstacles_config :: config where
  "two_obstacles_config = example_config\<lparr>config_obs := [(10, 0, 1), (1, 0, 1 / 2)]\<rparr>"

text \<open>A structure of time-varying parameters for a horizon of two steps, with stale values.\<close>

definition example_tvp_struct :: tvp_struct where
  "example_tvp_struct = replicate 3 \<lparr>x_set_point = 7, y_set_point = 7\<rparr>"

text \<open>
  Stages for the closed loop. Their joint state counts the calls made so far; the
  controller of \<open>failing_solve\<close> raises from its second call on.
\<close>

definition example_solve :: "(nat, unit) make_step" where
  "example_solve w x = Inr ([1, 0], Suc w)"

definition example_simulate :: "(nat, unit) make_step" where
  "example_simulate w u = Inr (map (\<lambda>a. a + 1) u @ [0], Suc w)"

definition example_estimate :: "(nat, unit) make_step" where
  "example_estimate w y = Inr (y, Suc w)"

definition failing_solve :: "(nat, unit) make_step" where
  "failing_solve w x = (if w < 3 then Inr ([1, 0], Suc w) else Inl ())"

section \<open>Auxiliary facts\<close>

lemmas example_defs = example_config_def init_attributes_def example_step_def
  gamma_zero_config_def gamma_one_config_def trajectory_config_def unknown_trajectory_config_def
  no_obstacles_config_def two_obstacles_config_def example_controller_def example_tvp_struct_def

lemma get_sys_matrix_B_value:
  "get_sys_matrix_B x s =
     [[cos (x s ! 2), - (1 / 10 ^ 9) * sin (x s ! 2)],
      [sin (x s ! 2), (1 / 10 ^ 9) * cos (x s ! 2)],
      [0, 1]]"
  by (simp add: get_sys_matrix_B_def zeros_def mat_set_def Let_def eval_nat_numeral)

lemmas eval_defs = define_model_def get_cost_expression_def Let_def get_sys_matrix_B_value
  vadd_def scale_def mtimes_def dot_def h_def get_cbf_constraints_def cbf_x_k1_def

lemma init_attributes_fields:
  "self_obstacles_on (init_attributes cfg) = config_obstacles_on cfg"
  "config_obstacles_on cfg \<Longrightarrow> self_obs (init_attributes cfg) = Some (config_obs cfg)"
  "config_obstacles_on cfg \<Longrightarrow> self_r (init_attributes cfg) = Some (config_r cfg)"
  "self_control_type (init_attributes cfg) = config_control_type cfg"
  "self_gamma (init_attributes cfg) = config_gamma cfg"
  by (simp_all add: init_attributes_def)

lemma define_model_rhs:
  assumes "define_model self = Inr m"
  shows "model_rhs m =
           (\<lambda>s. vadd (val_x s) (scale (mtimes (get_sys_matrix_B val_x s) (val_u s)) (self_Ts self)))"
  using assms
  by (auto simp: define_model_def Let_def split: sum.splits prod.splits)

text \<open>An object built by \<open>__init__\<close> has the attributes that \<open>define_model\<close> reads.\<close>

lemma define_model_init_ok: "\<exists>m. define_model (init_attributes cfg) = Inr m"
  by (simp add: define_model_def get_cost_expression_def init_attributes_def Let_def)

lemma cbf_x_k1_rhs: "define_model self = Inr m \<Longrightarrow> cbf_x_k1 self = model_rhs m"
  by (auto simp: define_model_def cbf_x_k1_def Let_def split: sum.splits prod.splits)

lemma legacy_x_k1_rhs: "legacy_define_model self = Inr m \<Longrightarrow> legacy_x_k1 self = model_rhs m"
  by (auto simp: legacy_define_model_def legacy_x_k1_def Let_def split: sum.splits prod.splits)

lemma legacy_x_k1_eq: "legacy_x_k1 self = cbf_x_k1 self"
  by (simp add: legacy_x_k1_def cbf_x_k1_def get_sys_matrix_B_def Let_def)

subsection \<open>The barrier function and the loops over the obstacles\<close>

lemma h_Some:
  "self_r self = Some r \<Longrightarrow>
   h self x ob =
     Inr (\<lambda>s. (x s ! 0 - fst ob) ^ 2 + (x s ! 1 - fst (snd ob)) ^ 2 - (r + snd (snd ob)) ^ 2)"
  by (simp add: h_def split: prod.splits)

lemma h_None: "self_r self = None \<Longrightarrow> h self x ob = Inl AttributeError"
  by (simp add: h_def split: prod.splits)

text \<open>The value of \<open>h\<close> at an expression \<open>x\<close> is its value at the state that \<open>x\<close> denotes.\<close>

lemma h_successor:
  assumes "h self val_x ob = Inr h_k" "h self x ob = Inr h_k1" "val_x s' = x s"
  shows "h_k s' = h_k1 s"
  using assms by (auto simp: h_def split: prod.splits option.splits)

lemma h_total:
  assumes "h self x ob = Inr h_k1"
  shows "\<exists>h_k. h self y ob = Inr h_k"
  using assms by (auto simp: h_def split: prod.splits option.splits)

lemma cbf_loop_Some:
  "self_r self = Some r \<Longrightarrow>
   cbf_loop self x_k1 acc obstacles =
     Inr (acc @ map (\<lambda>ob s. - projr (h self x_k1 ob) s
                          + (1 - self_gamma self) * projr (h self val_x ob) s) obstacles)"
  by (induction obstacles arbitrary: acc) (simp_all add: h_Some)

lemma get_cbf_constraints_Some:
  assumes "self_obs self = Some obstacles" "self_r self = Some r"
  shows "get_cbf_constraints self =
     Inr (map (\<lambda>ob s. - projr (h self (cbf_x_k1 self) ob) s
                      + (1 - self_gamma self) * projr (h self val_x ob) s) obstacles)"
  using assms by (simp add: get_cbf_constraints_def cbf_loop_Some)

lemma get_cbf_constraints_nth:
  assumes "get_cbf_constraints self = Inr cs" "self_obs self = Some obstacles"
  shows "length cs = length obstacles"
    and "i < length obstacles \<Longrightarrow>
         cs ! i = (\<lambda>s. - projr (h self (cbf_x_k1 self) (obstacles ! i)) s
                        + (1 - self_gamma self) * projr (h self val_x (obstacles ! i)) s)"
proof -
  show "length cs = length obstacles"
  proof (cases "self_r self")
    case None
    then show ?thesis using assms
      by (cases obstacles) (simp_all add: get_cbf_constraints_def h_None)
  next
    case (Some r)
    then show ?thesis using assms by (auto simp add: get_cbf_constraints_Some)
  qed
  assume i: "i < length obstacles"
  then obtain r where "self_r self = Some r"
    using assms
    by (cases "self_r self"; cases obstacles) (simp_all add: get_cbf_constraints_def h_None)
  then show "cs ! i = (\<lambda>s. - projr (h self (cbf_x_k1 self) (obstacles ! i)) s
                        + (1 - self_gamma self) * projr (h self val_x (obstacles ! i)) s)"
    using assms i by (auto simp add: get_cbf_constraints_Some)
qed

lemma set_nl_cons_cons [simp]:
  "mpc_nl_cons (set_nl_cons mpc name e u) =
     mpc_nl_cons mpc @ [\<lparr>con_name = name, con_expr = e, con_ub = u\<rparr>]"
  by (simp add: set_nl_cons_def)

lemma obstacle_loop_Some:
  "self_r self = Some r \<Longrightarrow>
   \<exists>mpc'. obstacle_loop self mpc i obstacles = Inr mpc'
     \<and> mpc_nl_cons mpc' = mpc_nl_cons mpc @
          map (\<lambda>(j, ob). \<lparr>con_name = ''obstacle_constraint'' @ str j,
                 con_expr = (\<lambda>s. - ((val_x s ! 0 - fst ob) ^ 2) - (val_x s ! 1 - fst (snd ob)) ^ 2
                                   + (r + snd (snd ob)) ^ 2),
                 con_ub = 0\<rparr>) (enumerate i obstacles)"
proof (induction obstacles arbitrary: mpc i)
  case Nil
  then show ?case by simp
next
  case (Cons ob obstacles)
  obtain xo yo ro where ob: "ob = (xo, yo, ro)" by (cases ob) auto
  show ?case
    using Cons.IH [OF Cons.prems, of "set_nl_cons mpc (''obstacle_constraint'' @ str i)
        (\<lambda>s. - ((val_x s ! 0 - xo) ^ 2) - (val_x s ! 1 - yo) ^ 2 + (r + ro) ^ 2) 0" "Suc i"]
    by (auto simp: ob Cons.prems Let_def)
qed

lemma add_obstacle_constraints_Some:
  assumes "self_obs self = Some obstacles" "self_r self = Some r"
  shows "\<exists>mpc'. add_obstacle_constraints self mpc = Inr mpc'"
  using obstacle_loop_Some [OF assms(2), of mpc 0 obstacles] assms(1)
  by (auto simp: add_obstacle_constraints_def)

lemma add_cbf_loop_cons:
  "mpc_nl_cons (add_cbf_loop mpc i cs) = mpc_nl_cons mpc @
     map (\<lambda>(j, c). \<lparr>con_name = ''cbf_constraint'' @ str j, con_expr = c, con_ub = 0\<rparr>)
       (enumerate i cs)"
  by (induction cs arbitrary: mpc i) simp_all

lemma add_cbf_constraints_Some:
  assumes "self_obs self = Some obstacles" "self_r self = Some r"
  shows "\<exists>mpc'. add_cbf_constraints self mpc = Inr mpc'
     \<and> mpc_nl_cons mpc' = mpc_nl_cons mpc @
          map (\<lambda>(i, c). \<lparr>con_name = ''cbf_constraint'' @ str i, con_expr = c, con_ub = 0\<rparr>)
            (enumerate 0 (map (\<lambda>ob s. - projr (h self (cbf_x_k1 self) ob) s
                      + (1 - self_gamma self) * projr (h self val_x ob) s) obstacles))"
  by (simp add: add_cbf_constraints_def get_cbf_constraints_Some [OF assms] add_cbf_loop_cons)

lemma str_examples: "str 0 = ''0''" "str 7 = ''7''" "str 12 = ''12''" "str 305 = ''305''"
  by (simp_all add: str.simps)

subsection \<open>Assembly\<close>

lemma define_mpc_tvp_fun:
  assumes "define_mpc cfg self m mpc0 = Inr mpc'"
      and "self_control_type self = ''traj_tracking''"
  shows "mpc_tvp_fun mpc' = Some (tvp_fun_mpc cfg)"
  using assms
  by (auto simp: define_mpc_def Let_def set_tvp_for_mpc_def split: sum.splits if_splits)

lemma define_mpc_no_obstacles:
  assumes "\<not> self_obstacles_on self"
  shows "\<exists>mpc'. define_mpc cfg self m mpc0 = Inr mpc'
           \<and> mpc_nl_cons mpc' = mpc_nl_cons mpc0
           \<and> mpc_mterm mpc' = model_aux_cost m \<and> mpc_lterm mpc' = model_aux_cost m
           \<and> mpc_rterm_u mpc' = self_R self
           \<and> mpc_bounds_lower_u mpc' = [- self_v_limit self, - self_omega_limit self]
           \<and> mpc_bounds_upper_u mpc' = [self_v_limit self, self_omega_limit self]"
  using assms by (simp add: define_mpc_def Let_def set_tvp_for_mpc_def)

text \<open>
  On an object built by \<open>__init__\<close>, no statement of \<open>define_mpc\<close> of \<open>mpc_cbf.py\<close> reads
  an attribute that was not assigned.
\<close>

lemma define_mpc_init_ok: "\<exists>mpc'. define_mpc cfg (init_attributes cfg) m mpc0 = Inr mpc'"
proof (cases "config_obstacles_on cfg")
  case False
  then show ?thesis
    using define_mpc_no_obstacles [of "init_attributes cfg" cfg m mpc0]
    by (auto simp: init_attributes_fields)
next
  case True
  note o = init_attributes_fields(2,3) [OF True]
  let ?S = "init_attributes cfg"
  let ?mpc5 = "mpc0\<lparr>mpc_n_robust := 0, mpc_n_horizon := self_T_horizon ?S,
       mpc_t_step := self_Ts ?S, mpc_state_discretization := ''discrete'',
       mpc_store_full_solution := True, mpc_mterm := model_aux_cost m,
       mpc_lterm := model_aux_cost m, mpc_rterm_u := self_R ?S,
       mpc_bounds_lower_u := map uminus [self_v_limit ?S, self_omega_limit ?S],
       mpc_bounds_upper_u := [self_v_limit ?S, self_omega_limit ?S]\<rparr>"
  obtain a where a: "add_cbf_constraints ?S ?mpc5 = Inr a"
    using add_cbf_constraints_Some [OF o, of ?mpc5] by blast
  obtain b where b: "add_obstacle_constraints ?S ?mpc5 = Inr b"
    using add_obstacle_constraints_Some [OF o, of ?mpc5] by blast
  show ?thesis
    using a b by (simp add: define_mpc_def Let_def)
qed

text \<open>The trajectory type enters \<open>tvp_fun_mpc\<close> through the comparison with \<open>circular\<close> only.\<close>

lemma tvp_fun_mpc_other:
  assumes "config_trajectory cfg \<noteq> ''circular''" "other \<noteq> ''circular''"
  shows "tvp_fun_mpc (cfg\<lparr>config_trajectory := other\<rparr>) = tvp_fun_mpc cfg"
  using assms by (intro ext) (simp add: tvp_fun_mpc_def)

lemma define_mpc_other:
  assumes "config_trajectory cfg \<noteq> ''circular''" "other \<noteq> ''circular''"
  shows "define_mpc (cfg\<lparr>config_trajectory := other\<rparr>) self m mpc0 = define_mpc cfg self m mpc0"
  by (simp add: define_mpc_def set_tvp_for_mpc_def Let_def tvp_fun_mpc_other [OF assms]
      split: sum.splits)

lemma tvp_fun_mpc_value:
  "tvp_fun_mpc cfg tvp_struct t_now =
     Inr (map (\<lambda>e. e\<lparr>x_set_point :=
                       (if config_trajectory cfg = ''circular''
                        then config_A cfg * cos (config_w cfg * t_now)
                        else config_A cfg * cos (config_w cfg * t_now)
                               / ((sin (config_w cfg * t_now)) ^ 2 + 1)),
                     y_set_point :=
                       (if config_trajectory cfg = ''circular''
                        then config_A cfg * sin (config_w cfg * t_now)
                        else config_A cfg * sin (config_w cfg * t_now) * cos (config_w cfg * t_now)
                               / ((sin (config_w cfg * t_now)) ^ 2 + 1))\<rparr>) tvp_struct)"
  by (simp add: tvp_fun_mpc_def Let_def)

subsection \<open>The closed loop\<close>

lemma cycle_step:
  "run_loop a b c (Suc n) x w = Inr q \<longleftrightarrow>
     (\<exists>p. cycle a b c (x, w) p \<and> run_loop a b c n (fst p) (snd p) = Inr q)"
  by (auto simp: cycle_def split: sum.splits prod.splits)

lemma cycle_fail_step:
  "run_loop a b c (Suc n) x w = Inl e \<longleftrightarrow>
     cycle_fails a b c (x, w) e
     \<or> (\<exists>p. cycle a b c (x, w) p \<and> run_loop a b c n (fst p) (snd p) = Inl e)"
  by (auto simp: cycle_def cycle_fails_def split: sum.splits prod.splits)

lemma run_loop_Inr_iff:
  "run_loop a b c n x w = Inr q \<longleftrightarrow> (cycle a b c ^^ n) (x, w) q"
proof (induction n arbitrary: x w)
  case 0
  then show ?case by auto
next
  case (Suc n)
  show ?case
  proof
    assume "run_loop a b c (Suc n) x w = Inr q"
    then obtain p where p: "cycle a b c (x, w) p" "run_loop a b c n (fst p) (snd p) = Inr q"
      unfolding cycle_step by blast
    from p(2) have "(cycle a b c ^^ n) p q" using Suc.IH [of "fst p" "snd p"] by simp
    with p(1) show "(cycle a b c ^^ Suc n) (x, w) q" by (rule relpowp_Suc_I2)
  next
    assume "(cycle a b c ^^ Suc n) (x, w) q"
    then obtain p where p: "cycle a b c (x, w) p" "(cycle a b c ^^ n) p q"
      by (blast dest: relpowp_Suc_D2)
    from p(2) have "run_loop a b c n (fst p) (snd p) = Inr q"
      using Suc.IH [of "fst p" "snd p"] by simp
    with p(1) show "run_loop a b c (Suc n) x w = Inr q" unfolding cycle_step by blast
  qed
qed

lemma run_loop_Inl_iff:
  "run_loop a b c n x w = Inl e \<longleftrightarrow>
     (\<exists>k p. k < n \<and> (cycle a b c ^^ k) (x, w) p \<and> cycle_fails a b c p e)"
proof (induction n arbitrary: x w)
  case 0
  then show ?case by simp
next
  case (Suc n)
  show ?case
  proof
    assume "run_loop a b c (Suc n) x w = Inl e"
    then consider "cycle_fails a b c (x, w) e"
      | p where "cycle a b c (x, w) p" "run_loop a b c n (fst p) (snd p) = Inl e"
      unfolding cycle_fail_step by blast
    then show "\<exists>k p. k < Suc n \<and> (cycle a b c ^^ k) (x, w) p \<and> cycle_fails a b c p e"
    proof cases
      case 1
      then have "0 < Suc n \<and> (cycle a b c ^^ 0) (x, w) (x, w) \<and> cycle_fails a b c (x, w) e"
        by simp
      then show ?thesis by blast
    next
      case 2
      from 2(2)
      have "\<exists>k p'. k < n \<and> (cycle a b c ^^ k) (fst p, snd p) p' \<and> cycle_fails a b c p' e"
        by (simp only: Suc.IH)
      then obtain k p' where k: "k < n" "(cycle a b c ^^ k) p p'" "cycle_fails a b c p' e"
        by auto
      from 2(1) k(2) have "(cycle a b c ^^ Suc k) (x, w) p'" by (rule relpowp_Suc_I2)
      with k(1,3)
      have "Suc k < Suc n \<and> (cycle a b c ^^ Suc k) (x, w) p' \<and> cycle_fails a b c p' e"
        by simp
      then show ?thesis by blast
    qed
  next
    assume "\<exists>k p. k < Suc n \<and> (cycle a b c ^^ k) (x, w) p \<and> cycle_fails a b c p e"
    then obtain k p where k: "k < Suc n" "(cycle a b c ^^ k) (x, w) p" "cycle_fails a b c p e"
      by blast
    show "run_loop a b c (Suc n) x w = Inl e"
    proof (cases k)
      case 0
      with k(2,3) show ?thesis unfolding cycle_fail_step by simp
    next
      case (Suc k')
      with k(2) obtain p1 where p1: "cycle a b c (x, w) p1" "(cycle a b c ^^ k') p1 p"
        by (blast dest: relpowp_Suc_D2)
      from k(1) Suc have "k' < n" by simp
      with p1(2) k(3)
      have "\<exists>k p. k < n \<and> (cycle a b c ^^ k) (fst p1, snd p1) p \<and> cycle_fails a b c p e"
        by (intro exI [of _ k'] exI [of _ p]) simp
      then have "run_loop a b c n (fst p1) (snd p1) = Inl e"
        by (simp only: Suc.IH)
      with p1(1) show ?thesis unfolding cycle_fail_step by blast
    qed
  qed
qed

section \<open>The kinematic model\<close>

text \<open>
  Claim C4. For every state \<open>(px, py, \<theta>)\<close> and input \<open>(v, \<omega>)\<close> the right-hand side that
  \<open>define_model\<close> sets for the state is \<open>x + B(\<theta>) u Ts\<close>, where \<open>B(\<theta>)\<close> has the rows
  \<open>[cos \<theta>, -a sin \<theta>]\<close>, \<open>[sin \<theta>, a cos \<theta>]\<close>, \<open>[0, 1]\<close> and \<open>a\<close> is the positive constant
  \<open>1e-9\<close>. The value depends on nothing but the state, the input and \<open>Ts\<close>.
\<close>

theorem kinematic_model_transition:
  assumes "define_model self = Inr m"
      and "val_x s = [px, py, \<theta>]"
      and "val_u s = [v, \<omega>]"
  shows "(0 :: real) < 1 / 10 ^ 9
       \<and> get_sys_matrix_B val_x s =
           [[cos \<theta>, - (1 / 10 ^ 9) * sin \<theta>], [sin \<theta>, (1 / 10 ^ 9) * cos \<theta>], [0, 1]]
       \<and> model_rhs m s =
           [px + (cos \<theta> * v + (- (1 / 10 ^ 9) * sin \<theta>) * \<omega>) * self_Ts self,
            py + (sin \<theta> * v + ((1 / 10 ^ 9) * cos \<theta>) * \<omega>) * self_Ts self,
            \<theta> + (0 * v + 1 * \<omega>) * self_Ts self]"
proof (intro conjI)
  show "0 < (1 / 10 ^ 9 :: real)" by simp
  show B: "get_sys_matrix_B val_x s =
      [[cos \<theta>, - (1 / 10 ^ 9) * sin \<theta>], [sin \<theta>, (1 / 10 ^ 9) * cos \<theta>], [0, 1]]"
    using assms(2) by (simp add: get_sys_matrix_B_value)
  show "model_rhs m s =
      [px + (cos \<theta> * v + (- (1 / 10 ^ 9) * sin \<theta>) * \<omega>) * self_Ts self,
       py + (sin \<theta> * v + ((1 / 10 ^ 9) * cos \<theta>) * \<omega>) * self_Ts self,
       \<theta> + (0 * v + 1 * \<omega>) * self_Ts self]"
    using assms(2,3)
    by (simp add: define_model_rhs [OF assms(1)] B vadd_def scale_def mtimes_def dot_def)
qed

theorem kinematic_model_transition_witness:
  "\<exists>m. define_model (init_attributes example_config) = Inr m
     \<and> model_rhs m example_step = [1, 0, 0]"
proof -
  obtain m where m: "define_model (init_attributes example_config) = Inr m"
    using define_model_init_ok by blast
  have "model_rhs m example_step = [1, 0, 0]"
    using kinematic_model_transition [OF m, of example_step 0 0 0 1 0]
    by (simp add: example_step_def init_attributes_def example_config_def)
  with m show ?thesis by blast
qed

text \<open>The barrier constraint that the legacy \<open>define_mpc\<close> appends.\<close>

lemma legacy_define_mpc_constraint:
  assumes "legacy_define_mpc cfg self lm mpc0 tvp_template = Inr lmpc"
  shows "\<exists>h_k h_k1. legacy_h self val_x = Inr h_k \<and> legacy_h self (legacy_x_k1 self) = Inr h_k1
           \<and> mpc_nl_cons lmpc = mpc_nl_cons mpc0 @
                [\<lparr>con_name = ''cbf_constraint'',
                  con_expr = (\<lambda>s. - h_k1 s + (1 - self_gamma self) * h_k s),
                  con_ub = 0\<rparr>]"
  using assms
  by (auto simp: legacy_define_mpc_def legacy_set_tvp_for_mpc_def Let_def
      split: sum.splits if_splits)

lemma legacy_h_successor:
  assumes "legacy_h self val_x = Inr h_k" "legacy_h self x = Inr h_k1"
  shows "h_k1 s = h_k (s\<lparr>val_x := x s\<rparr>)"
  using assms by (auto simp: legacy_h_def split: prod.splits option.splits list.splits)

text \<open>
  Claim C5. The barrier constraints are built on the transition formula of the model:
  the constraint that \<open>get_cbf_constraints\<close> generates for an obstacle is
  \<open>-h(x') + (1 - \<gamma>) h(x)\<close> with \<open>x'\<close> the value of the right-hand side that \<open>define_model\<close>
  sets for the state, for every assignment of the symbols; the state vector \<open>x_k1\<close> that
  it computes is that right-hand side as a function. The same holds inside the legacy
  file, which builds the matrix in place twice, for the constraint that its \<open>define_mpc\<close>
  appends; and the right-hand sides of the two files are equal.
\<close>

theorem one_step_ahead_state_is_model_rhs:
  assumes "define_model self = Inr m"
      and "get_cbf_constraints self = Inr cs"
      and "self_obs self = Some obstacles"
      and "legacy_define_model self = Inr lm"
      and "legacy_define_mpc cfg self lm mpc0 tvp_template = Inr lmpc"
  shows "cbf_x_k1 self = model_rhs m
       \<and> legacy_x_k1 self = model_rhs lm
       \<and> model_rhs lm = model_rhs m
       \<and> length cs = length obstacles
       \<and> (\<forall>i < length obstacles. \<exists>h_k.
              h self val_x (obstacles ! i) = Inr h_k
            \<and> (\<forall>s. (cs ! i) s =
                   - h_k (s\<lparr>val_x := model_rhs m s\<rparr>) + (1 - self_gamma self) * h_k s))
       \<and> (\<exists>h_k c.
              legacy_h self val_x = Inr h_k
            \<and> mpc_nl_cons lmpc = mpc_nl_cons mpc0 @ [c]
            \<and> (\<forall>s. con_expr c s =
                   - h_k (s\<lparr>val_x := model_rhs lm s\<rparr>) + (1 - self_gamma self) * h_k s))"
proof (intro conjI)
  show x: "cbf_x_k1 self = model_rhs m" by (rule cbf_x_k1_rhs [OF assms(1)])
  show lx: "legacy_x_k1 self = model_rhs lm" by (rule legacy_x_k1_rhs [OF assms(4)])
  show "model_rhs lm = model_rhs m" using x lx legacy_x_k1_eq [of self] by simp
  show "length cs = length obstacles" by (rule get_cbf_constraints_nth(1) [OF assms(2,3)])
  show "\<forall>i < length obstacles. \<exists>h_k.
              h self val_x (obstacles ! i) = Inr h_k
            \<and> (\<forall>s. (cs ! i) s =
                   - h_k (s\<lparr>val_x := model_rhs m s\<rparr>) + (1 - self_gamma self) * h_k s)"
  proof (intro allI impI)
    fix i assume i: "i < length obstacles"
    obtain r where r: "self_r self = Some r"
      using assms(2,3) i
      by (cases "self_r self"; cases obstacles) (simp_all add: get_cbf_constraints_def h_None)
    obtain h_k where hk: "h self val_x (obstacles ! i) = Inr h_k"
      using h_Some [OF r] by blast
    obtain h_k1 where hk1: "h self (model_rhs m) (obstacles ! i) = Inr h_k1"
      using h_Some [OF r] by blast
    have "(cs ! i) s = - h_k (s\<lparr>val_x := model_rhs m s\<rparr>) + (1 - self_gamma self) * h_k s"
      for s
    proof -
      have "(cs ! i) s = - h_k1 s + (1 - self_gamma self) * h_k s"
        using get_cbf_constraints_nth(2) [OF assms(2,3) i] hk hk1 x by simp
      moreover have "h_k (s\<lparr>val_x := model_rhs m s\<rparr>) = h_k1 s"
        by (rule h_successor [OF hk hk1]) simp
      ultimately show ?thesis by simp
    qed
    with hk show "\<exists>h_k. h self val_x (obstacles ! i) = Inr h_k
            \<and> (\<forall>s. (cs ! i) s =
                   - h_k (s\<lparr>val_x := model_rhs m s\<rparr>) + (1 - self_gamma self) * h_k s)"
      by blast
  qed
  show "\<exists>h_k c.
              legacy_h self val_x = Inr h_k
            \<and> mpc_nl_cons lmpc = mpc_nl_cons mpc0 @ [c]
            \<and> (\<forall>s. con_expr c s =
                   - h_k (s\<lparr>val_x := model_rhs lm s\<rparr>) + (1 - self_gamma self) * h_k s)"
  proof -
    from legacy_define_mpc_constraint [OF assms(5)]
    obtain h_k h_k1 where hk: "legacy_h self val_x = Inr h_k"
      and hk1: "legacy_h self (legacy_x_k1 self) = Inr h_k1"
      and c: "mpc_nl_cons lmpc = mpc_nl_cons mpc0 @
                [\<lparr>con_name = ''cbf_constraint'',
                  con_expr = (\<lambda>s. - h_k1 s + (1 - self_gamma self) * h_k s),
                  con_ub = 0\<rparr>]"
      by blast
    have "h_k1 s = h_k (s\<lparr>val_x := model_rhs lm s\<rparr>)" for s
      using legacy_h_successor [OF hk hk1, of s] lx by simp
    with hk c show ?thesis by auto
  qed
qed

theorem one_step_ahead_state_is_model_rhs_witness:
  "\<exists>m cs lm lmpc.
       define_model (init_attributes example_config) = Inr m
     \<and> get_cbf_constraints (init_attributes example_config) = Inr cs
     \<and> legacy_define_model (init_attributes example_config) = Inr lm
     \<and> legacy_define_mpc example_config (init_attributes example_config) lm
          example_controller example_tvp_struct = Inr lmpc
     \<and> model_rhs m example_step = [1, 0, 0]
     \<and> model_rhs lm example_step = [1, 0, 0]
     \<and> length cs = 1
     \<and> (cs ! 0) example_step = - 1
     \<and> length (mpc_nl_cons lmpc) = 1
     \<and> con_expr (mpc_nl_cons lmpc ! 0) example_step = - 1"
proof -
  let ?S = "init_attributes example_config"
  let ?s' = "example_step\<lparr>val_x := [1, 0, 0]\<rparr>"
  obtain m where m: "define_model ?S = Inr m"
    using define_model_init_ok by blast
  obtain cs where cs: "get_cbf_constraints ?S = Inr cs"
    by (simp add: example_defs eval_defs)
  obtain lm where lm: "legacy_define_model ?S = Inr lm"
    by (simp add: legacy_define_model_def get_cost_expression_def Let_def example_defs)
  obtain lmpc where lmpc:
    "legacy_define_mpc example_config ?S lm example_controller example_tvp_struct = Inr lmpc"
    by (simp add: legacy_define_mpc_def legacy_h_def Let_def example_defs)
  have ob: "self_obs ?S = Some [(3, 0, 1)]" and g: "self_gamma ?S = 3 / 4"
    by (simp_all add: example_defs)
  have n0: "mpc_nl_cons example_controller = []" by (simp add: example_controller_def)
  have v: "cbf_x_k1 ?S example_step = [1, 0, 0]"
    by (simp add: example_defs eval_defs)
  note T = one_step_ahead_state_is_model_rhs [OF m cs ob lm lmpc]
  from T v have r: "model_rhs m example_step = [1, 0, 0]" "model_rhs lm example_step = [1, 0, 0]"
    by simp_all
  from T have len: "length cs = 1" by simp
  from T obtain h_k where hk: "h ?S val_x ([(3, 0, 1)] ! 0) = Inr h_k"
    and c0: "(cs ! 0) example_step =
        - h_k (example_step\<lparr>val_x := model_rhs m example_step\<rparr>) + (1 - self_gamma ?S) * h_k example_step"
    by fastforce
  from hk have hkv: "h_k example_step = 8" "h_k ?s' = 3"
    by (auto simp: example_defs h_def)
  from c0 have c: "(cs ! 0) example_step = - 1" by (simp add: r g hkv)
  from T obtain lh_k lc where lhk: "legacy_h ?S val_x = Inr lh_k"
    and lcons: "mpc_nl_cons lmpc = mpc_nl_cons example_controller @ [lc]"
    and lc0: "con_expr lc example_step =
        - lh_k (example_step\<lparr>val_x := model_rhs lm example_step\<rparr>) + (1 - self_gamma ?S) * lh_k example_step"
    by blast
  from lhk have lhkv: "lh_k example_step = 8" "lh_k ?s' = 3"
    by (auto simp: example_defs legacy_h_def)
  from lcons lc0 have lc: "length (mpc_nl_cons lmpc) = 1"
    "con_expr (mpc_nl_cons lmpc ! 0) example_step = - 1"
    by (simp_all add: n0 r g lhkv)
  from m cs lm lmpc r len c lc show ?thesis by blast
qed

text \<open>
  Claim C10. The right-hand side of the model takes the same value at any two assignments
  that agree on the state and on the input, whatever they give to the time-varying
  parameters; and in trajectory tracking the function that \<open>define_simulator\<close> registers
  returns the template it was given, at every time.
\<close>

theorem simulator_independent_of_reference:
  assumes "define_model self = Inr m"
  shows "(\<forall>s s'. val_x s = val_x s' \<and> val_u s = val_u s' \<longrightarrow> model_rhs m s = model_rhs m s')
       \<and> (self_control_type self = ''traj_tracking'' \<longrightarrow>
            (\<exists>tvp_fun. sim_tvp_fun (define_simulator self sim0 tvp_template) = Some tvp_fun
                \<and> (\<forall>t_now. tvp_fun t_now = tvp_template)))"
  by (simp add: define_model_rhs [OF assms] get_sys_matrix_B_def define_simulator_def Let_def)

theorem simulator_independent_of_reference_witness:
  "\<exists>m tvp_fun.
      define_model (init_attributes trajectory_config) = Inr m
    \<and> model_rhs m (example_step\<lparr>val_tvp := \<lparr>x_set_point = 5, y_set_point = 6\<rparr>\<rparr>)
        = model_rhs m example_step
    \<and> sim_tvp_fun (define_simulator (init_attributes trajectory_config)
          \<lparr>sim_t_step = 0, sim_tvp_fun = None\<rparr> \<lparr>x_set_point = 0, y_set_point = 0\<rparr>) = Some tvp_fun
    \<and> tvp_fun 1 = \<lparr>x_set_point = 0, y_set_point = 0\<rparr>"
proof -
  let ?S = "init_attributes trajectory_config"
  obtain m where m: "define_model ?S = Inr m"
    using define_model_init_ok by blast
  have t: "self_control_type ?S = ''traj_tracking''" by (simp add: example_defs)
  from simulator_independent_of_reference [OF m, of "\<lparr>sim_t_step = 0, sim_tvp_fun = None\<rparr>"
      "\<lparr>x_set_point = 0, y_set_point = 0\<rparr>"] t
  have a: "\<And>s s'. val_x s = val_x s' \<and> val_u s = val_u s' \<Longrightarrow> model_rhs m s = model_rhs m s'"
    and "\<exists>tvp_fun. sim_tvp_fun (define_simulator ?S \<lparr>sim_t_step = 0, sim_tvp_fun = None\<rparr>
            \<lparr>x_set_point = 0, y_set_point = 0\<rparr>) = Some tvp_fun
          \<and> (\<forall>t_now. tvp_fun t_now = \<lparr>x_set_point = 0, y_set_point = 0\<rparr>)"
    by blast+
  then obtain tvp_fun where f:
    "sim_tvp_fun (define_simulator ?S \<lparr>sim_t_step = 0, sim_tvp_fun = None\<rparr>
            \<lparr>x_set_point = 0, y_set_point = 0\<rparr>) = Some tvp_fun"
    "tvp_fun 1 = \<lparr>x_set_point = 0, y_set_point = 0\<rparr>" by blast
  have "model_rhs m (example_step\<lparr>val_tvp := \<lparr>x_set_point = 5, y_set_point = 6\<rparr>\<rparr>)
        = model_rhs m example_step"
    by (rule a) simp
  with m f show ?thesis by blast
qed

text \<open>The cost, in contrast, changes with the reference.\<close>

lemma reference_influences_cost:
  "\<exists>m. define_model (init_attributes trajectory_config) = Inr m
     \<and> model_aux_cost m example_step = 0
     \<and> 61 \<le> model_aux_cost m (example_step\<lparr>val_tvp := \<lparr>x_set_point = 5, y_set_point = 6\<rparr>\<rparr>)"
  by (simp add: example_defs define_model_def get_cost_expression_def Let_def row_mtimes_def
      dot_def arctan2_def power2_eq_square [symmetric])

section \<open>The barrier constraint\<close>

text \<open>
  One step under the constraint \<open>-h(x_k1) + (1 - \<gamma>) h(x_k) \<le> 0\<close> of an obstacle.
\<close>

lemma cbf_constraint_step:
  assumes "define_model self = Inr m"
      and "get_cbf_constraints self = Inr cs"
      and "self_obs self = Some obstacles"
      and "i < length obstacles"
      and "h self val_x (obstacles ! i) = Inr h_k"
      and "h self (model_rhs m) (obstacles ! i) = Inr h_k1"
      and "(cs ! i) s \<le> 0"
  shows "(1 - self_gamma self) * h_k s \<le> h_k1 s"
proof -
  have "cs ! i = (\<lambda>s. - h_k1 s + (1 - self_gamma self) * h_k s)"
    using get_cbf_constraints_nth(2) [OF assms(2,3,4)] assms(5,6) cbf_x_k1_rhs [OF assms(1)]
    by simp
  with assms(7) show ?thesis by simp
qed

text \<open>
  Claim C1, as the code has it. The claim bounds \<open>h(x_k1)\<close> from below by \<open>\<gamma> h(x_k)\<close>; the
  constraint that \<open>get_cbf_constraints\<close> generates gives the bound \<open>(1 - \<gamma>) h(x_k)\<close>. In the
  example run (\<open>\<gamma> = 0.75\<close>) the robot drives from \<open>h = 8\<close> to \<open>h = 3\<close>: the constraint
  holds (\<open>-3 + 0.25 * 8 \<le> 0\<close>), and \<open>3 < 0.75 * 8\<close>.
\<close>

theorem cbf_decay_counterexample:
  "\<not> isl (define_model (init_attributes example_config))
   \<and> \<not> isl (get_cbf_constraints (init_attributes example_config))
   \<and> self_obs (init_attributes example_config) = Some [(3, 0, 1)]
   \<and> 0 < self_gamma (init_attributes example_config)
   \<and> self_gamma (init_attributes example_config) \<le> 1
   \<and> projr (h (init_attributes example_config) val_x (3, 0, 1)) example_step = 8
   \<and> projr (h (init_attributes example_config)
              (model_rhs (projr (define_model (init_attributes example_config)))) (3, 0, 1))
        example_step = 3
   \<and> (projr (get_cbf_constraints (init_attributes example_config)) ! 0) example_step \<le> 0
   \<and> \<not> (self_gamma (init_attributes example_config)
          * projr (h (init_attributes example_config) val_x (3, 0, 1)) example_step
        \<le> projr (h (init_attributes example_config)
              (model_rhs (projr (define_model (init_attributes example_config)))) (3, 0, 1))
            example_step)"
  by (simp add: example_defs eval_defs)

text \<open>
  Claim C1, amended. For every configured obstacle and every step: if \<open>h(x_k) \<ge> 0\<close> and
  \<open>\<gamma>\<close> is in \<open>(0, 1]\<close>, then every state \<open>x_k\<close> and input \<open>u_k\<close> that satisfy the generated
  constraint have \<open>h(x_k1) \<ge> (1 - \<gamma>) h(x_k) \<ge> 0\<close> at the successor \<open>x_k1\<close> of the
  kinematic model; the successor is in the safe set.
\<close>

theorem cbf_forward_invariance:
  assumes "define_model self = Inr m"
      and "get_cbf_constraints self = Inr cs"
      and "self_obs self = Some obstacles"
      and "i < length obstacles"
      and "h self val_x (obstacles ! i) = Inr h_k"
      and "h self (model_rhs m) (obstacles ! i) = Inr h_k1"
      and "0 < self_gamma self" and "self_gamma self \<le> 1"
      and "0 \<le> h_k s"
      and "(cs ! i) s \<le> 0"
  shows "(1 - self_gamma self) * h_k s \<le> h_k1 s
       \<and> 0 \<le> (1 - self_gamma self) * h_k s
       \<and> 0 \<le> h_k1 s"
proof -
  have a: "(1 - self_gamma self) * h_k s \<le> h_k1 s"
    using cbf_constraint_step [OF assms(1-6) assms(10)] .
  have b: "0 \<le> (1 - self_gamma self) * h_k s"
    using assms(8,9) by simp
  from a b show ?thesis by simp
qed

theorem cbf_forward_invariance_witness:
  "\<exists>m cs h_k h_k1.
      define_model (init_attributes example_config) = Inr m
    \<and> get_cbf_constraints (init_attributes example_config) = Inr cs
    \<and> h (init_attributes example_config) val_x (3, 0, 1) = Inr h_k
    \<and> h (init_attributes example_config) (model_rhs m) (3, 0, 1) = Inr h_k1
    \<and> 0 \<le> h_k example_step \<and> (cs ! 0) example_step \<le> 0
    \<and> (1 - 3 / 4) * h_k example_step \<le> h_k1 example_step
    \<and> 0 \<le> (1 - 3 / 4) * h_k example_step
    \<and> 0 \<le> h_k1 example_step"
proof -
  let ?S = "init_attributes example_config"
  obtain m where m: "define_model ?S = Inr m"
    using define_model_init_ok by blast
  obtain cs where cs: "get_cbf_constraints ?S = Inr cs"
    by (simp add: example_defs eval_defs)
  obtain h_k where hk: "h ?S val_x (3, 0, 1) = Inr h_k" and hk0: "h_k example_step = 8"
    by (simp add: example_defs eval_defs)
  obtain h_k1 where hk1: "h ?S (model_rhs m) (3, 0, 1) = Inr h_k1"
    by (simp add: example_defs eval_defs)
  have ob: "self_obs ?S = Some [(3, 0, 1)]" by (simp add: example_defs)
  have g: "self_gamma ?S = 3 / 4" by (simp add: example_defs)
  have c: "(cs ! 0) example_step \<le> 0"
    using cs by (auto simp add: example_defs eval_defs)
  have "(1 - self_gamma ?S) * h_k example_step \<le> h_k1 example_step
        \<and> 0 \<le> (1 - self_gamma ?S) * h_k example_step
        \<and> 0 \<le> h_k1 example_step"
    using cbf_forward_invariance [OF m cs ob, of 0 h_k h_k1 example_step] hk hk1 c
    by (simp add: g hk0)
  with m cs hk hk1 c show ?thesis by (auto simp: g hk0)
qed

text \<open>
  Along a sequence of steps in which every state is the successor of the one before and
  every step satisfies the constraint, the barrier function stays non-negative when it
  starts non-negative.
\<close>

lemma cbf_safe_along_horizon:
  assumes m: "define_model self = Inr m"
      and cs: "get_cbf_constraints self = Inr cs"
      and ob: "self_obs self = Some obstacles"
      and i: "i < length obstacles"
      and hk: "h self val_x (obstacles ! i) = Inr h_k"
      and g: "self_gamma self \<le> 1"
      and dyn: "\<And>j. Suc j < length ss \<Longrightarrow> val_x (ss ! Suc j) = model_rhs m (ss ! j)"
      and con: "\<And>j. Suc j < length ss \<Longrightarrow> (cs ! i) (ss ! j) \<le> 0"
      and init: "0 \<le> h_k (ss ! 0)"
      and k: "k < length ss"
  shows "0 \<le> h_k (ss ! k)"
  using k
proof (induction k)
  case 0
  show ?case by (rule init)
next
  case (Suc k)
  then have safe: "0 \<le> h_k (ss ! k)" by simp
  obtain h_k1 where hk1: "h self (model_rhs m) (obstacles ! i) = Inr h_k1"
    using h_total [OF hk] by blast
  have "(1 - self_gamma self) * h_k (ss ! k) \<le> h_k1 (ss ! k)"
    using cbf_constraint_step [OF m cs ob i hk hk1 con [OF Suc.prems]] .
  moreover have "0 \<le> (1 - self_gamma self) * h_k (ss ! k)"
    using g safe by simp
  ultimately have "0 \<le> h_k1 (ss ! k)" by linarith
  moreover have "h_k (ss ! Suc k) = h_k1 (ss ! k)"
    using h_successor [OF hk hk1 dyn [OF Suc.prems]] .
  ultimately show ?case by simp
qed

text \<open>
  Claim C6, as the code has it. At \<open>\<gamma> = 0\<close> the generated constraint is
  \<open>-h(x_k1) + h(x_k) \<le> 0\<close>. In the example run with \<open>\<gamma> = 0\<close> the successor keeps its
  clearance (the constraint of the direct formulation holds there: \<open>-3 \<le> 0\<close>), and the
  generated constraint fails (\<open>-3 + 8 > 0\<close>).
\<close>

theorem dc_equivalence_gamma_zero_counterexample:
  "self_gamma (init_attributes gamma_zero_config) = 0
   \<and> \<not> isl (define_model (init_attributes gamma_zero_config))
   \<and> \<not> isl (get_cbf_constraints (init_attributes gamma_zero_config))
   \<and> \<not> isl (add_obstacle_constraints (init_attributes gamma_zero_config) example_controller)
   \<and> \<not> ((projr (get_cbf_constraints (init_attributes gamma_zero_config)) ! 0) example_step \<le> 0)
   \<and> con_expr (mpc_nl_cons (projr (add_obstacle_constraints (init_attributes gamma_zero_config)
                 example_controller)) ! 0)
        (example_step\<lparr>val_x := model_rhs (projr (define_model (init_attributes gamma_zero_config)))
                                   example_step\<rparr>)
      \<le> con_ub (mpc_nl_cons (projr (add_obstacle_constraints (init_attributes gamma_zero_config)
                 example_controller)) ! 0)"
  by (simp add: example_defs eval_defs add_obstacle_constraints_def set_nl_cons_def)

text \<open>
  Claim C6, amended. At \<open>\<gamma> = 1\<close> a state and an input satisfy the generated constraint of
  an obstacle if and only if the one-step-ahead state satisfies the constraint that the
  direct formulation (\<open>add_obstacle_constraints\<close>) adds for that obstacle.
\<close>

theorem dc_equivalence_at_gamma_one:
  assumes "define_model self = Inr m"
      and "get_cbf_constraints self = Inr cs"
      and "add_obstacle_constraints self mpc = Inr mpc_dc"
      and "self_obs self = Some obstacles"
      and "i < length obstacles"
      and "self_gamma self = 1"
  shows "(cs ! i) s \<le> 0 \<longleftrightarrow>
         con_expr (mpc_nl_cons mpc_dc ! (length (mpc_nl_cons mpc) + i)) (s\<lparr>val_x := model_rhs m s\<rparr>)
           \<le> con_ub (mpc_nl_cons mpc_dc ! (length (mpc_nl_cons mpc) + i))"
proof -
  obtain r where r: "self_r self = Some r"
    using assms(2,4,5)
    by (cases "self_r self"; cases obstacles) (simp_all add: get_cbf_constraints_def h_None)
  obtain xo yo ro where ob: "obstacles ! i = (xo, yo, ro)" by (cases "obstacles ! i") auto
  have cbf: "(cs ! i) s =
      - ((model_rhs m s ! 0 - xo) ^ 2 + (model_rhs m s ! 1 - yo) ^ 2 - (r + ro) ^ 2)"
    using get_cbf_constraints_nth(2) [OF assms(2,4,5)] assms(6) cbf_x_k1_rhs [OF assms(1)]
    by (simp add: h_Some [OF r] ob)
  from obstacle_loop_Some [OF r, of mpc 0 obstacles] assms(3,4)
  have "mpc_nl_cons mpc_dc = mpc_nl_cons mpc @
          map (\<lambda>(j, ob). \<lparr>con_name = ''obstacle_constraint'' @ str j,
                 con_expr = (\<lambda>s. - ((val_x s ! 0 - fst ob) ^ 2) - (val_x s ! 1 - fst (snd ob)) ^ 2
                                   + (r + snd (snd ob)) ^ 2),
                 con_ub = 0\<rparr>) (enumerate 0 obstacles)"
    by (auto simp: add_obstacle_constraints_def)
  then have dc: "mpc_nl_cons mpc_dc ! (length (mpc_nl_cons mpc) + i) =
      \<lparr>con_name = ''obstacle_constraint'' @ str i,
       con_expr = (\<lambda>s. - ((val_x s ! 0 - xo) ^ 2) - (val_x s ! 1 - yo) ^ 2 + (r + ro) ^ 2),
       con_ub = 0\<rparr>"
    using assms(5) by (simp add: nth_append nth_enumerate_eq ob)
  show ?thesis by (auto simp add: cbf dc)
qed

theorem dc_equivalence_at_gamma_one_witness:
  "\<exists>m cs mpc_dc.
      define_model (init_attributes gamma_one_config) = Inr m
    \<and> get_cbf_constraints (init_attributes gamma_one_config) = Inr cs
    \<and> add_obstacle_constraints (init_attributes gamma_one_config) example_controller = Inr mpc_dc
    \<and> self_gamma (init_attributes gamma_one_config) = 1
    \<and> (cs ! 0) example_step \<le> 0
    \<and> con_expr (mpc_nl_cons mpc_dc ! 0) (example_step\<lparr>val_x := model_rhs m example_step\<rparr>)
         \<le> con_ub (mpc_nl_cons mpc_dc ! 0)"
proof -
  let ?S = "init_attributes gamma_one_config"
  obtain m where m: "define_model ?S = Inr m"
    using define_model_init_ok by blast
  obtain cs where cs: "get_cbf_constraints ?S = Inr cs"
    by (simp add: example_defs eval_defs)
  obtain mpc_dc where dc: "add_obstacle_constraints ?S example_controller = Inr mpc_dc"
    by (simp add: example_defs add_obstacle_constraints_def)
  have ob: "self_obs ?S = Some [(3, 0, 1)]" by (simp add: example_defs)
  have g: "self_gamma ?S = 1" by (simp add: example_defs)
  have c: "(cs ! 0) example_step \<le> 0"
    using cs by (auto simp add: example_defs eval_defs)
  have n: "length (mpc_nl_cons example_controller) = 0" by (simp add: example_controller_def)
  have "con_expr (mpc_nl_cons mpc_dc ! 0) (example_step\<lparr>val_x := model_rhs m example_step\<rparr>)
         \<le> con_ub (mpc_nl_cons mpc_dc ! 0)"
    using dc_equivalence_at_gamma_one [OF m cs dc ob _ g, of 0 example_step] c n by simp
  with m cs dc g c show ?thesis by blast
qed

section \<open>Construction of the safety constraints\<close>

text \<open>
  In \<open>mpc_cbf.py\<close>, with obstacles on and a controller other than MPC-DC, \<open>define_mpc\<close>
  appends one constraint per configured obstacle, in the order of the list: the
  constraint of obstacle \<open>i\<close> is named \<open>cbf_constraint\<close> followed by \<open>i\<close>, has the upper
  bound 0 and the expression \<open>-h(x_k1) + (1 - \<gamma>) h(x_k)\<close> with \<open>x_k1\<close> the right-hand side
  of the model.
\<close>

lemma define_mpc_cbf_constraints:
  assumes "config_obstacles_on cfg" "config_controller cfg \<noteq> ''MPC-DC''"
      and "define_model (init_attributes cfg) = Inr m"
  shows "\<exists>mpc'. define_mpc cfg (init_attributes cfg) m mpc0 = Inr mpc'
     \<and> length (mpc_nl_cons mpc') = length (mpc_nl_cons mpc0) + length (config_obs cfg)
     \<and> take (length (mpc_nl_cons mpc0)) (mpc_nl_cons mpc') = mpc_nl_cons mpc0
     \<and> (\<forall>i < length (config_obs cfg).
          mpc_nl_cons mpc' ! (length (mpc_nl_cons mpc0) + i) =
            \<lparr>con_name = ''cbf_constraint'' @ str i,
             con_expr = (\<lambda>s. - projr (h (init_attributes cfg) (model_rhs m) (config_obs cfg ! i)) s
                      + (1 - config_gamma cfg)
                          * projr (h (init_attributes cfg) val_x (config_obs cfg ! i)) s),
             con_ub = 0\<rparr>)"
proof -
  let ?S = "init_attributes cfg"
  note o = init_attributes_fields(2,3) [OF assms(1)]
  let ?mpc5 = "mpc0\<lparr>mpc_n_robust := 0, mpc_n_horizon := self_T_horizon ?S,
       mpc_t_step := self_Ts ?S, mpc_state_discretization := ''discrete'',
       mpc_store_full_solution := True, mpc_mterm := model_aux_cost m,
       mpc_lterm := model_aux_cost m, mpc_rterm_u := self_R ?S,
       mpc_bounds_lower_u := map uminus [self_v_limit ?S, self_omega_limit ?S],
       mpc_bounds_upper_u := [self_v_limit ?S, self_omega_limit ?S]\<rparr>"
  obtain a where a: "add_cbf_constraints ?S ?mpc5 = Inr a"
    and cons: "mpc_nl_cons a = mpc_nl_cons ?mpc5 @
          map (\<lambda>(i, c). \<lparr>con_name = ''cbf_constraint'' @ str i, con_expr = c, con_ub = 0\<rparr>)
            (enumerate 0 (map (\<lambda>ob s. - projr (h ?S (cbf_x_k1 ?S) ob) s
                      + (1 - self_gamma ?S) * projr (h ?S val_x ob) s) (config_obs cfg)))"
    using add_cbf_constraints_Some [OF o, of ?mpc5] by blast
  let ?mpc' = "if self_control_type ?S = ''traj_tracking'' then set_tvp_for_mpc cfg a else a"
  have d: "define_mpc cfg ?S m mpc0 = Inr ?mpc'"
    using a assms(1,2) by (simp add: define_mpc_def Let_def init_attributes_fields)
  have c': "mpc_nl_cons ?mpc' = mpc_nl_cons mpc0 @
          map (\<lambda>(i, c). \<lparr>con_name = ''cbf_constraint'' @ str i, con_expr = c, con_ub = 0\<rparr>)
            (enumerate 0 (map (\<lambda>ob s. - projr (h ?S (model_rhs m) ob) s
                      + (1 - config_gamma cfg) * projr (h ?S val_x ob) s) (config_obs cfg)))"
    using cons
    by (simp add: set_tvp_for_mpc_def cbf_x_k1_rhs [OF assms(3)] init_attributes_fields)
  show ?thesis
    unfolding d using c' by (simp add: nth_append nth_enumerate_eq)
qed

lemma define_mpc_two_obstacles_names:
  "\<exists>m mpc'. define_model (init_attributes two_obstacles_config) = Inr m
     \<and> define_mpc two_obstacles_config (init_attributes two_obstacles_config) m
          example_controller = Inr mpc'
     \<and> map con_name (mpc_nl_cons mpc') = [''cbf_constraint0'', ''cbf_constraint1'']"
  by (simp add: example_defs define_model_def get_cost_expression_def Let_def define_mpc_def
      add_cbf_constraints_def get_cbf_constraints_def h_def set_nl_cons_def str.simps)

text \<open>
  Claim C2, in the legacy file. With two obstacles configured, \<open>define_mpc\<close> of
  \<open>mpc-cbf.py\<close> adds the single constraint \<open>cbf_constraint\<close>, which \<open>h\<close> builds from the
  first obstacle: one constraint, where the claim requires two.
\<close>

theorem legacy_two_obstacles_one_constraint:
  "config_obstacles_on two_obstacles_config
   \<and> length (config_obs two_obstacles_config) = 2
   \<and> \<not> isl (legacy_define_model (init_attributes two_obstacles_config))
   \<and> \<not> isl (legacy_define_mpc two_obstacles_config (init_attributes two_obstacles_config)
              (projr (legacy_define_model (init_attributes two_obstacles_config)))
              example_controller example_tvp_struct)
   \<and> map con_name (mpc_nl_cons (projr (legacy_define_mpc two_obstacles_config
              (init_attributes two_obstacles_config)
              (projr (legacy_define_model (init_attributes two_obstacles_config)))
              example_controller example_tvp_struct)))
       = [''cbf_constraint'']"
  by (simp add: example_defs legacy_define_model_def get_cost_expression_def
      legacy_define_mpc_def legacy_h_def Let_def set_nl_cons_def)

text \<open>
  In \<open>mpc_cbf.py\<close>, with obstacles off, no statement of \<open>define_mpc\<close> raises and the list
  of nonlinear constraints is left as it was found; the cost, the input penalty and the
  bounds of the input are set. The same holds with obstacles on and an empty list of
  obstacles.
\<close>

lemma define_mpc_obstacles_off:
  assumes "\<not> config_obstacles_on cfg"
  shows "\<exists>mpc'. define_mpc cfg (init_attributes cfg) m mpc0 = Inr mpc'
           \<and> mpc_nl_cons mpc' = mpc_nl_cons mpc0
           \<and> mpc_mterm mpc' = model_aux_cost m \<and> mpc_lterm mpc' = model_aux_cost m
           \<and> mpc_rterm_u mpc' = config_R cfg
           \<and> mpc_bounds_lower_u mpc' = [- config_v_limit cfg, - config_omega_limit cfg]
           \<and> mpc_bounds_upper_u mpc' = [config_v_limit cfg, config_omega_limit cfg]"
  using assms define_mpc_no_obstacles [of "init_attributes cfg" cfg m mpc0]
  by (simp add: init_attributes_def)

lemma define_mpc_no_obstacle_supplied:
  assumes "config_obstacles_on cfg" "config_obs cfg = []"
  shows "\<exists>mpc'. define_mpc cfg (init_attributes cfg) m mpc0 = Inr mpc'
           \<and> mpc_nl_cons mpc' = mpc_nl_cons mpc0"
  using assms
  by (auto simp add: init_attributes_def define_mpc_def Let_def add_cbf_constraints_def
      add_obstacle_constraints_def get_cbf_constraints_def set_tvp_for_mpc_def)

text \<open>
  Claim C3, in the legacy file. With obstacles off, \<open>__init__\<close> of \<open>mpc-cbf.py\<close> assigns
  no \<open>self.obs\<close>, and its \<open>define_mpc\<close>, which builds the barrier constraint
  unconditionally, raises \<open>AttributeError\<close> when \<open>h\<close> reads \<open>self.obs[0]\<close>: the
  assembly fails, where the claim requires that it does not.
\<close>

theorem legacy_define_mpc_obstacles_off:
  "\<not> config_obstacles_on no_obstacles_config
   \<and> legacy_define_mpc no_obstacles_config (init_attributes no_obstacles_config) m mpc0
        tvp_template
       = Inl AttributeError"
  by (simp add: example_defs legacy_define_mpc_def legacy_h_def Let_def)

lemma legacy_define_mpc_obstacles_off_general:
  "\<not> config_obstacles_on cfg \<Longrightarrow>
     legacy_define_mpc cfg (init_attributes cfg) m mpc0 tvp_template = Inl AttributeError"
  by (simp add: init_attributes_def legacy_define_mpc_def legacy_h_def Let_def)

lemma legacy_define_mpc_no_obstacle_supplied:
  "config_obstacles_on cfg \<Longrightarrow> config_obs cfg = [] \<Longrightarrow>
     legacy_define_mpc cfg (init_attributes cfg) m mpc0 tvp_template = Inl IndexError"
  by (simp add: init_attributes_def legacy_define_mpc_def legacy_h_def Let_def)

section \<open>The reference\<close>



text \<open>
  Claim C8, as the code has it. With the trajectory type \<open>square\<close>, which is none of the
  families of the specification, no statement of \<open>define_model\<close> and \<open>define_mpc\<close> of
  \<open>mpc_cbf.py\<close> raises, the type is not looked at during the assembly, and the function
  that is registered returns points of the figure-eight trajectory (at \<open>t_now = \<pi>/2\<close> the
  point \<open>(0, 0)\<close>; the circular trajectory is at \<open>(0, 1)\<close> then).
\<close>

theorem unknown_trajectory_counterexample:
  "config_control_type unknown_trajectory_config = ''traj_tracking''
   \<and> config_trajectory unknown_trajectory_config = ''square''
   \<and> \<not> isl (define_model (init_attributes unknown_trajectory_config))
   \<and> \<not> isl (define_mpc unknown_trajectory_config (init_attributes unknown_trajectory_config)
              (projr (define_model (init_attributes unknown_trajectory_config)))
              example_controller)
   \<and> mpc_tvp_fun (projr (define_mpc unknown_trajectory_config
              (init_attributes unknown_trajectory_config)
              (projr (define_model (init_attributes unknown_trajectory_config)))
              example_controller))
       = Some (tvp_fun_mpc unknown_trajectory_config)
   \<and> tvp_fun_mpc unknown_trajectory_config example_tvp_struct (pi / 2)
       = Inr (replicate 3 \<lparr>x_set_point = 0, y_set_point = 0\<rparr>)"
proof -
  let ?C = unknown_trajectory_config
  let ?S = "init_attributes ?C"
  have 1: "config_control_type ?C = ''traj_tracking''" "config_trajectory ?C = ''square''"
    by (simp_all add: example_defs)
  obtain m where m: "define_model ?S = Inr m"
    using define_model_init_ok by blast
  obtain mpc' where mpc': "define_mpc ?C ?S m example_controller = Inr mpc'"
    using define_mpc_init_ok by blast
  have f: "mpc_tvp_fun mpc' = Some (tvp_fun_mpc ?C)"
    using define_mpc_tvp_fun [OF mpc'] by (simp add: example_defs)
  have v: "tvp_fun_mpc ?C example_tvp_struct (pi / 2)
             = Inr (replicate 3 \<lparr>x_set_point = 0, y_set_point = 0\<rparr>)"
    by (simp add: tvp_fun_mpc_value example_defs)
  show ?thesis using 1 m mpc' f v by simp
qed

text \<open>
  Claim C8, amended. The trajectory type is not validated. For every run in trajectory
  tracking with a type other than \<open>circular\<close>, supported or not: whenever \<open>define_mpc\<close>
  returns, the function it registered returns, at every time and at every step of the
  horizon, the point
  \<open>(A cos(w t) / (sin(w t)^2 + 1), A sin(w t) cos(w t) / (sin(w t)^2 + 1))\<close> of the
  figure-eight trajectory and raises nothing, and \<open>define_mpc\<close> returns the same
  controller for every other type that is not \<open>circular\<close>.
\<close>

theorem unknown_trajectory_selects_lemniscate:
  assumes "config_trajectory cfg \<noteq> ''circular''"
      and "self_control_type self = ''traj_tracking''"
      and "define_mpc cfg self m mpc0 = Inr mpc'"
  shows "mpc_tvp_fun mpc' = Some (tvp_fun_mpc cfg)
       \<and> (\<forall>tvp_struct t_now.
            tvp_fun_mpc cfg tvp_struct t_now =
              Inr (map (\<lambda>e. e\<lparr>x_set_point := config_A cfg * cos (config_w cfg * t_now)
                                                 / ((sin (config_w cfg * t_now)) ^ 2 + 1),
                              y_set_point := config_A cfg * sin (config_w cfg * t_now)
                                                 * cos (config_w cfg * t_now)
                                                 / ((sin (config_w cfg * t_now)) ^ 2 + 1)\<rparr>)
                     tvp_struct))
       \<and> (\<forall>other. other \<noteq> ''circular'' \<longrightarrow>
            define_mpc (cfg\<lparr>config_trajectory := other\<rparr>) self m mpc0 = Inr mpc')"
proof (intro conjI allI impI)
  show "mpc_tvp_fun mpc' = Some (tvp_fun_mpc cfg)"
    by (rule define_mpc_tvp_fun [OF assms(3,2)])
next
  fix tvp_struct t_now
  show "tvp_fun_mpc cfg tvp_struct t_now =
              Inr (map (\<lambda>e. e\<lparr>x_set_point := config_A cfg * cos (config_w cfg * t_now)
                                                 / ((sin (config_w cfg * t_now)) ^ 2 + 1),
                              y_set_point := config_A cfg * sin (config_w cfg * t_now)
                                                 * cos (config_w cfg * t_now)
                                                 / ((sin (config_w cfg * t_now)) ^ 2 + 1)\<rparr>)
                     tvp_struct)"
    using assms(1) by (simp add: tvp_fun_mpc_value)
next
  fix other :: string
  assume "other \<noteq> ''circular''"
  then show "define_mpc (cfg\<lparr>config_trajectory := other\<rparr>) self m mpc0 = Inr mpc'"
    using define_mpc_other [OF assms(1), of other self m mpc0] assms(3) by simp
qed

theorem unknown_trajectory_selects_lemniscate_witness:
  "\<exists>m mpc'. define_model (init_attributes unknown_trajectory_config) = Inr m
     \<and> define_mpc unknown_trajectory_config (init_attributes unknown_trajectory_config) m
          example_controller = Inr mpc'
     \<and> mpc_tvp_fun mpc' = Some (tvp_fun_mpc unknown_trajectory_config)
     \<and> tvp_fun_mpc unknown_trajectory_config example_tvp_struct 0
         = Inr (replicate 3 \<lparr>x_set_point = 1, y_set_point = 0\<rparr>)
     \<and> define_mpc (unknown_trajectory_config\<lparr>config_trajectory := ''lemniscate''\<rparr>)
          (init_attributes unknown_trajectory_config) m example_controller = Inr mpc'"
proof -
  let ?C = unknown_trajectory_config
  let ?S = "init_attributes ?C"
  obtain m where m: "define_model ?S = Inr m"
    using define_model_init_ok by blast
  obtain mpc' where mpc': "define_mpc ?C ?S m example_controller = Inr mpc'"
    using define_mpc_init_ok by blast
  have c: "config_trajectory ?C \<noteq> ''circular''" "self_control_type ?S = ''traj_tracking''"
    by (simp_all add: example_defs)
  note T = unknown_trajectory_selects_lemniscate [OF c mpc']
  from T have f: "mpc_tvp_fun mpc' = Some (tvp_fun_mpc ?C)" by blast
  from T have "tvp_fun_mpc ?C example_tvp_struct 0 =
      Inr (map (\<lambda>e. e\<lparr>x_set_point := config_A ?C * cos (config_w ?C * 0)
                                         / ((sin (config_w ?C * 0)) ^ 2 + 1),
                      y_set_point := config_A ?C * sin (config_w ?C * 0)
                                         * cos (config_w ?C * 0)
                                         / ((sin (config_w ?C * 0)) ^ 2 + 1)\<rparr>)
             example_tvp_struct)"
    by blast
  then have v: "tvp_fun_mpc ?C example_tvp_struct 0
         = Inr (replicate 3 \<lparr>x_set_point = 1, y_set_point = 0\<rparr>)"
    by (simp add: example_defs)
  from T have o: "define_mpc (?C\<lparr>config_trajectory := ''lemniscate''\<rparr>) ?S m example_controller
      = Inr mpc'"
    by simp
  from m mpc' f v o show ?thesis by blast
qed

text \<open>
  In the legacy file the function assigns the trajectory in the circular case only: with
  any other type, the figure-eight included, every call raises \<open>UnboundLocalError\<close>, and
  the first call is the one made when the function is registered, inside \<open>define_mpc\<close>.
\<close>

lemma legacy_tvp_fun_mpc_unknown:
  "config_trajectory cfg \<noteq> ''circular'' \<Longrightarrow>
     legacy_tvp_fun_mpc cfg tvp_struct t_now = Inl UnboundLocalError"
  by (simp add: legacy_tvp_fun_mpc_def)

lemma legacy_define_mpc_unknown:
  assumes "config_trajectory cfg \<noteq> ''circular''"
      and "self_control_type self = ''traj_tracking''"
      and "self_obs self = Some (ob # rest)" "self_r self = Some r"
  shows "legacy_define_mpc cfg self lm mpc0 tvp_template = Inl UnboundLocalError"
  using assms
  by (simp add: legacy_define_mpc_def legacy_h_def legacy_set_tvp_for_mpc_def
      legacy_tvp_fun_mpc_def Let_def split: prod.splits)

section \<open>The closed loop\<close>

text \<open>
  Claim C9. \<open>run_simulation\<close> returns normally exactly when \<open>sim_time\<close> cycles, each one
  solve, then simulate, then estimate, lead from the initial state \<open>x0\<close> to the result,
  the state that a cycle produces being the state that the next one starts from; and it
  raises \<open>e\<close> exactly when, after fewer than \<open>sim_time\<close> such cycles, a stage of the next
  cycle raises \<open>e\<close>. There is no other exit.
\<close>

theorem run_simulation_cycles:
  "(run_simulation solve simulate estimate self w = Inr q \<longleftrightarrow>
      (cycle solve simulate estimate ^^ self_sim_time self) (self_x0 self, w) q)
   \<and> (run_simulation solve simulate estimate self w = Inl e \<longleftrightarrow>
      (\<exists>k p. k < self_sim_time self
           \<and> (cycle solve simulate estimate ^^ k) (self_x0 self, w) p
           \<and> cycle_fails solve simulate estimate p e))"
  unfolding run_simulation_def
  using run_loop_Inr_iff [of solve simulate estimate "self_sim_time self" "self_x0 self" w q]
    run_loop_Inl_iff [of solve simulate estimate "self_sim_time self" "self_x0 self" w e]
  by simp

theorem run_simulation_cycles_witness:
  "self_sim_time (init_attributes example_config) = 2
   \<and> run_simulation example_solve example_simulate example_estimate
        (init_attributes example_config) 0 = Inr ([2, 1, 0], 6)
   \<and> (cycle example_solve example_simulate example_estimate ^^ 2) ([0, 0, 0], 0) ([2, 1, 0], 6)
   \<and> run_simulation failing_solve example_simulate example_estimate
        (init_attributes example_config) 0 = Inl ()
   \<and> (\<exists>k p. k < 2
         \<and> (cycle failing_solve example_simulate example_estimate ^^ k) ([0, 0, 0], 0) p
         \<and> cycle_fails failing_solve example_simulate example_estimate p ())"
proof -
  let ?S = "init_attributes example_config"
  have n: "self_sim_time ?S = 2" "self_x0 ?S = [0, 0, 0]" by (simp_all add: example_defs)
  have r: "run_simulation example_solve example_simulate example_estimate ?S 0
             = Inr ([2, 1, 0], 6)"
    by (simp add: run_simulation_def n eval_nat_numeral example_solve_def example_simulate_def
        example_estimate_def)
  have f: "run_simulation failing_solve example_simulate example_estimate ?S 0 = Inl ()"
    by (simp add: run_simulation_def n eval_nat_numeral failing_solve_def example_simulate_def
        example_estimate_def)
  from r f show ?thesis
    using run_simulation_cycles [of example_solve example_simulate example_estimate ?S 0
          "([2, 1, 0], 6)" "()"]
      run_simulation_cycles [of failing_solve example_simulate example_estimate ?S 0
          "([2, 1, 0], 6)" "()"]
    by (simp add: n)
qed

end
